theory Spec2Isabelle
  imports Main
begin

section \<open>Strings\<close>

text \<open>
  Python strings are modelled as HOL strings (lists of 8-bit characters). The helpers
  below are the string methods that \<^verbatim>\<open>geodata_retrieval.py\<close> calls. \<open>upper\<close> and
  \<open>lower\<close> change the ASCII letters only; the source compares their results with
  ASCII literals (\<^verbatim>\<open>"WMS"\<close>, \<^verbatim>\<open>"WFS"\<close>, \<^verbatim>\<open>"gzip"\<close>), and no other 8-bit character
  becomes an ASCII letter under Python's case mappings. \<open>isspace\<close> holds of the 8-bit
  characters that \<^verbatim>\<open>str.strip()\<close> removes.
\<close>

definition digit :: "nat \<Rightarrow> char" where
  "digit d = ''0123456789'' ! d"

fun str_nat :: "nat \<Rightarrow> string" where
  "str_nat n = (if n < 10 then [digit n] else str_nat (n div 10) @ [digit (n mod 10)])"

declare str_nat.simps [simp del]

definition str_int :: "int \<Rightarrow> string" where
  "str_int i = (if i < 0 then CHR ''-'' # str_nat (nat (- i)) else str_nat (nat i))"

definition isspace :: "char \<Rightarrow> bool" where
  "isspace c \<longleftrightarrow>
     (let n = (of_char c :: nat)
      in (9 \<le> n \<and> n \<le> 13) \<or> (28 \<le> n \<and> n \<le> 32) \<or> n = 133 \<or> n = 160)"

definition strip :: "string \<Rightarrow> string" where
  "strip s = rev (dropWhile isspace (rev (dropWhile isspace s)))"

definition startswith :: "string \<Rightarrow> string \<Rightarrow> bool" where
  "startswith s p \<longleftrightarrow> take (length p) s = p"

definition endswith :: "string \<Rightarrow> string \<Rightarrow> bool" where
  "endswith s p \<longleftrightarrow> length p \<le> length s \<and> drop (length s - length p) s = p"

definition upper :: "string \<Rightarrow> string" where
  "upper s =
     map (\<lambda>c. let n = (of_char c :: nat)
               in if 97 \<le> n \<and> n \<le> 122 then char_of (n - 32) else c) s"

definition lower :: "string \<Rightarrow> string" where
  "lower s =
     map (\<lambda>c. let n = (of_char c :: nat)
               in if 65 \<le> n \<and> n \<le> 90 then char_of (n + 32) else c) s"

definition replace :: "string \<Rightarrow> char \<Rightarrow> char \<Rightarrow> string" where
  "replace s a b = map (\<lambda>c. if c = a then b else c) s"

section \<open>Exceptions, HTTP and XML\<close>

datatype net_failure = Timeout | ConnectionError

datatype exn =
    RequestException net_failure
  | HTTPError nat
  | ParseError
  | AttributeError
  | CRSError
  | ValueError
  | BadGzipFile
  | DataSourceError
  | OSError

text \<open>\<^verbatim>\<open>HTTPError\<close> is a subclass of \<^verbatim>\<open>RequestException\<close> in the requests library.\<close>

fun is_request_exception :: "exn \<Rightarrow> bool" where
  "is_request_exception (RequestException f) = True"
| "is_request_exception (HTTPError n) = True"
| "is_request_exception e = False"

record request =
  req_url :: string
  req_params :: "(string \<times> string) list"
  req_headers :: "(string \<times> string) list"
  req_timeout :: "nat option"

record response =
  status_code :: nat
  content_encoding :: "string option"
  content :: string

text \<open>
  An element of \<^verbatim>\<open>xml.etree.ElementTree\<close>: its tag (a namespaced tag is the string
  \<^verbatim>\<open>{uri}local\<close>), its text (\<^verbatim>\<open>None\<close> for an element without character data before
  its first child) and its children.
\<close>

datatype xml = Element (tag: string) (elem_text: "string option") (children: "xml list")

text \<open>\<^verbatim>\<open>Element.iter()\<close>: the element and all its descendants in document order.\<close>

fun iter :: "xml \<Rightarrow> xml list" where
  "iter (Element t x cs) = Element t x cs # concat (map iter cs)"

text \<open>
  \<^verbatim>\<open>root.findall(".//A/B")\<close>: every descendant of the root (the root itself excluded)
  with tag \<open>A\<close>, in document order, and of each its direct children with tag \<open>B\<close>.
\<close>

definition findall :: "xml \<Rightarrow> string \<Rightarrow> string \<Rightarrow> xml list" where
  "findall root a b =
     concat (map (\<lambda>e. filter (\<lambda>c. tag c = b) (children e))
                 (filter (\<lambda>e. tag e = a) (concat (map iter (children root)))))"

section \<open>Geometry and feature collections\<close>

type_synonym 'c bbox = "'c \<times> 'c \<times> 'c \<times> 'c"

text \<open>
  A GeoDataFrame: its coordinate reference system (as the authority string, such as
  \<^verbatim>\<open>EPSG:4326\<close>) and its rows. The row type \<open>'f\<close> is left open.
\<close>

datatype 'f gdf = GeoDataFrame (crs: string) (rows: "'f list")

datatype layer_result =
    WFS_result (geojson: string) (filename: string)
  | WMS_result (wms_url: string)

record dataset =
  name :: string
  url :: string
  type :: string

section \<open>The environment: what the libraries and the network do\<close>

text \<open>
  The functions of the source call the network (requests), an XML parser, pyproj,
  gzip, geopandas and the file system. These are not code of the repository; they are
  parameters of the model. A server is a function from the request to what
  \<^verbatim>\<open>requests.get\<close> returns or raises: the answer depends on the request only. The body
  of a response is one string, read both as \<^verbatim>\<open>response.text\<close> and as
  \<^verbatim>\<open>response.content\<close>. \<open>'c\<close> is the type of a coordinate, \<open>fmt\<close> is how Python
  formats one inside an f-string. \<open>parse_xml\<close>, \<open>gunzip\<close> and \<open>read_file\<close> return
  \<open>None\<close> where the library raises; \<open>reproject\<close> returns \<open>None\<close> for a pair of codes
  that pyproj rejects; \<open>writable\<close> tells whether \<^verbatim>\<open>to_file\<close> can write the file.
\<close>

record ('c, 'f) env =
  http_get :: "request \<Rightarrow> net_failure + response"
  parse_xml :: "string \<Rightarrow> xml option"
  reproject :: "nat \<Rightarrow> nat \<Rightarrow> ('c \<times> 'c \<Rightarrow> 'c \<times> 'c) option"
  fmt :: "'c \<Rightarrow> string"
  gunzip :: "string \<Rightarrow> string option"
  read_file :: "string \<Rightarrow> 'f gdf option"
  reproject_row :: "string \<Rightarrow> string \<Rightarrow> 'f \<Rightarrow> 'f"
  notnull :: "'f \<Rightarrow> bool"
  is_valid :: "'f \<Rightarrow> bool"
  to_json :: "'f gdf \<Rightarrow> string"
  writable :: "string \<Rightarrow> bool"

section \<open>transform\_bbox\<close>

text \<open>
  \<^verbatim>\<open>shapely.geometry.box\<close>: the exterior ring of the rectangle, counter-clockwise,
  closed by repeating the first vertex.
\<close>

definition box :: "'c \<Rightarrow> 'c \<Rightarrow> 'c \<Rightarrow> 'c \<Rightarrow> ('c \<times> 'c) list" where
  "box minx miny maxx maxy =
     [(maxx, miny), (maxx, maxy), (minx, maxy), (minx, miny), (maxx, miny)]"

text \<open>
  \<^verbatim>\<open>.bounds\<close>: minimum and maximum of the coordinates of the ring. An empty geometry
  has no four bounds to unpack.
\<close>

fun bounds :: "('c::linorder \<times> 'c) list \<Rightarrow> 'c bbox option" where
  "bounds [] = None"
| "bounds (p # ps) =
     Some (fold min (map fst ps) (fst p), fold min (map snd ps) (snd p),
           fold max (map fst ps) (fst p), fold max (map snd ps) (snd p))"

text \<open>
  \<^verbatim>\<open>pyproj.Proj(init=...)\<close> raises for a code it does not know; otherwise
  \<^verbatim>\<open>shapely.ops.transform\<close> applies the projection to every vertex of the ring.
\<close>

definition transform_bbox ::
  "('c::linorder, 'f) env \<Rightarrow> 'c bbox \<Rightarrow> nat \<Rightarrow> nat \<Rightarrow> exn + 'c bbox" where
  "transform_bbox env bbox from_epsg to_epsg =
     (case bbox of (minx, miny, maxx, maxy) \<Rightarrow>
        (case reproject env from_epsg to_epsg of
           None \<Rightarrow> Inl CRSError
         | Some project \<Rightarrow>
             (case bounds (map project (box minx miny maxx maxy)) of
                None \<Rightarrow> Inl ValueError
              | Some b \<Rightarrow> Inr b)))"

section \<open>get\_capabilities\_layers\<close>

definition capabilities_request :: "string \<Rightarrow> string \<Rightarrow> request" where
  "capabilities_request service_url service_type =
     \<lparr>req_url = service_url @ ''?request=GetCapabilities&service='' @ service_type,
      req_params = [], req_headers = [], req_timeout = Some 10\<rparr>"

text \<open>\<^verbatim>\<open>response.raise_for_status()\<close> raises for the statuses 400 to 599.\<close>

definition raise_for_status :: "response \<Rightarrow> exn option" where
  "raise_for_status r =
     (if 400 \<le> status_code r \<and> status_code r < 600 then Some (HTTPError (status_code r))
      else None)"

text \<open>The body of the \<^verbatim>\<open>try\<close> block; \<open>Inl\<close> is an exception raised inside it.\<close>

definition capabilities_layers_try ::
  "('c, 'f) env \<Rightarrow> string \<Rightarrow> string \<Rightarrow> exn + string option list" where
  "capabilities_layers_try env service_url service_type =
     (case http_get env (capabilities_request service_url service_type) of
        Inl f \<Rightarrow> Inl (RequestException f)
      | Inr response \<Rightarrow>
          (case raise_for_status response of
             Some e \<Rightarrow> Inl e
           | None \<Rightarrow>
               if \<not> startswith (strip (content response)) ''<'' then Inr []
               else
                 (case parse_xml env (content response) of
                    None \<Rightarrow> Inl ParseError
                  | Some root \<Rightarrow>
                      if upper service_type = ''WMS'' then
                        (let layers = map elem_text (findall root ''Layer'' ''Name'')
                         in if layers = [] then
                              Inr (map elem_text (findall root
                                     ''{http://www.opengis.net/wms/1.3.0}Layer''
                                     ''{http://www.opengis.net/wms/1.3.0}Name''))
                            else Inr layers)
                      else if upper service_type = ''WFS'' then
                        (let layers = map elem_text (findall root ''FeatureType'' ''Name'')
                         in if layers = [] then
                              Inr (map elem_text (findall root
                                     ''{http://www.opengis.net/wfs/2.0}FeatureType''
                                     ''{http://www.opengis.net/wfs/2.0}Name''))
                            else Inr layers)
                      else Inr [])))"

text \<open>
  The handlers: \<^verbatim>\<open>except requests.exceptions.RequestException\<close> and
  \<^verbatim>\<open>except ET.ParseError\<close> return the empty list, any other exception goes on to the
  caller.
\<close>

definition get_capabilities_layers ::
  "('c, 'f) env \<Rightarrow> string \<Rightarrow> string \<Rightarrow> exn + string option list" where
  "get_capabilities_layers env service_url service_type =
     (case capabilities_layers_try env service_url service_type of
        Inl e \<Rightarrow> if is_request_exception e \<or> e = ParseError then Inr [] else Inl e
      | Inr layers \<Rightarrow> Inr layers)"

section \<open>get\_supported\_crs\<close>

definition crs_request :: "string \<Rightarrow> request" where
  "crs_request wfs_url =
     \<lparr>req_url = wfs_url,
      req_params = [(''service'', ''WFS''), (''version'', ''2.0.0''),
                    (''request'', ''GetCapabilities'')],
      req_headers = [], req_timeout = Some 10\<rparr>"

text \<open>
  The loop over \<^verbatim>\<open>root.iter()\<close>: \<^verbatim>\<open>elem.text.strip()\<close> raises
  \<^verbatim>\<open>AttributeError\<close> when \<^verbatim>\<open>elem.text\<close> is \<^verbatim>\<open>None\<close>.
\<close>

fun collect_crs :: "xml list \<Rightarrow> string set \<Rightarrow> exn + string set" where
  "collect_crs [] crs_set = Inr crs_set"
| "collect_crs (elem # elems) crs_set =
     (if endswith (tag elem) ''DefaultCRS'' \<or> endswith (tag elem) ''OtherCRS'' then
        (case elem_text elem of
           None \<Rightarrow> Inl AttributeError
         | Some t \<Rightarrow> collect_crs elems (insert (strip t) crs_set))
      else collect_crs elems crs_set)"

definition supported_crs_try :: "('c, 'f) env \<Rightarrow> string \<Rightarrow> exn + string set" where
  "supported_crs_try env wfs_url =
     (case http_get env (crs_request wfs_url) of
        Inl f \<Rightarrow> Inl (RequestException f)
      | Inr response \<Rightarrow>
          if status_code response \<noteq> 200 then Inr {}
          else
            (case parse_xml env (content response) of
               None \<Rightarrow> Inl ParseError
             | Some root \<Rightarrow> collect_crs (iter root) {}))"

text \<open>The handler is \<^verbatim>\<open>except Exception\<close>: every exception becomes the empty set.\<close>

definition get_supported_crs :: "('c, 'f) env \<Rightarrow> string \<Rightarrow> exn + string set" where
  "get_supported_crs env wfs_url =
     (case supported_crs_try env wfs_url of
        Inl e \<Rightarrow> Inr {}
      | Inr crs_set \<Rightarrow> Inr crs_set)"

section \<open>fetch\_geodata\<close>

text \<open>
  The state of one call: the parameter \<^verbatim>\<open>bbox\<close>, the local variables
  \<^verbatim>\<open>minx, miny, maxx, maxy\<close> (the field \<open>extent\<close>) and \<^verbatim>\<open>results\<close>, and what
  the call has done to the outside so far: the requests sent, the calls of
  \<^verbatim>\<open>transform_bbox\<close> with their arguments, and the files written.
\<close>

record ('c, 'f) state =
  bbox_arg :: "'c bbox"
  extent :: "'c bbox"
  results :: "string \<rightharpoonup> layer_result"
  requests :: "request list"
  transform_calls :: "('c bbox \<times> nat \<times> nat) list"
  written :: "(string \<times> 'f gdf) list"

definition count :: nat where
  "count = 1000"

definition urn :: "nat \<Rightarrow> string" where
  "urn epsg = ''urn:ogc:def:crs:EPSG::'' @ str_nat epsg"

definition bbox_str :: "('c, 'f) env \<Rightarrow> 'c bbox \<Rightarrow> string" where
  "bbox_str env b =
     (case b of (minx, miny, maxx, maxy) \<Rightarrow>
        fmt env minx @ '','' @ fmt env miny @ '','' @ fmt env maxx @ '','' @ fmt env maxy)"

definition getfeature_request ::
  "('c, 'f) env \<Rightarrow> string \<Rightarrow> string \<Rightarrow> string \<Rightarrow> 'c bbox \<Rightarrow> nat \<Rightarrow> request" where
  "getfeature_request env service_url layer preferred_crs ext start_index =
     \<lparr>req_url = service_url,
      req_params =
        [(''SERVICE'', ''WFS''), (''REQUEST'', ''GetFeature''), (''VERSION'', ''2.0.0''),
         (''TYPENAMES'', layer), (''SRSNAME'', preferred_crs),
         (''BBOX'', bbox_str env ext @ '','' @ preferred_crs),
         (''COUNT'', str_nat count), (''STARTINDEX'', str_nat start_index),
         (''OUTPUTFORMAT'', ''application/json'')],
      req_headers = [(''User-Agent'', ''Mozilla/5.0 QGIS/33411/Windows 11 Version 2009'')],
      req_timeout = None\<rparr>"

text \<open>
  Lines 187 to 193: the body is unzipped when the header says gzip and the content starts
  with the gzip magic bytes, then read by geopandas.
\<close>

definition decode_page :: "('c, 'f) env \<Rightarrow> response \<Rightarrow> exn + 'f gdf" where
  "decode_page env response =
     (case (if lower (case content_encoding response of None \<Rightarrow> [] | Some h \<Rightarrow> h) = ''gzip''
               \<and> take 2 (content response) = [char_of (31 :: nat), char_of (139 :: nat)]
            then gunzip env (content response)
            else Some (content response)) of
        None \<Rightarrow> Inl BadGzipFile
      | Some data \<Rightarrow>
          (case read_file env data of
             None \<Rightarrow> Inl DataSourceError
           | Some g \<Rightarrow> Inr g))"

text \<open>
  The server answers a request with status 200 and a body that is read as the frame
  \<open>g\<close>.
\<close>

definition serves :: "('c, 'f) env \<Rightarrow> request \<Rightarrow> 'f gdf \<Rightarrow> bool" where
  "serves env req g \<longleftrightarrow>
     (\<exists>r. http_get env req = Inr r \<and> status_code r = 200 \<and> decode_page env r = Inr g)"

text \<open>
  The \<^verbatim>\<open>while True\<close> loop of lines 170 to 205. It has no bound, so the model is a
  partial function: \<open>None\<close> is a loop that never ends. The result is the exception
  raised or the list \<^verbatim>\<open>all_features\<close>, and the log of requests.
\<close>

partial_function (option) wfs_pages ::
  "('c, 'f) env \<Rightarrow> string \<Rightarrow> string \<Rightarrow> string \<Rightarrow> 'c bbox \<Rightarrow> nat \<Rightarrow> 'f gdf list \<Rightarrow>
   request list \<Rightarrow> ((exn + 'f gdf list) \<times> request list) option" where
  "wfs_pages env service_url layer preferred_crs ext start_index all_features log =
     (case http_get env (getfeature_request env service_url layer preferred_crs ext start_index) of
        Inl f \<Rightarrow>
          Some (Inl (RequestException f),
                log @ [getfeature_request env service_url layer preferred_crs ext start_index])
      | Inr response \<Rightarrow>
          if status_code response = 200 then
            (case decode_page env response of
               Inl e \<Rightarrow>
                 Some (Inl e,
                       log @ [getfeature_request env service_url layer preferred_crs ext start_index])
             | Inr g \<Rightarrow>
                 if length (rows g) < count then
                   Some (Inr (all_features @ [g]),
                         log @ [getfeature_request env service_url layer preferred_crs ext start_index])
                 else
                   wfs_pages env service_url layer preferred_crs ext (start_index + count)
                     (all_features @ [g])
                     (log @ [getfeature_request env service_url layer preferred_crs ext start_index]))
          else
            Some (Inr all_features,
                  log @ [getfeature_request env service_url layer preferred_crs ext start_index]))"

text \<open>
  Lines 208 to 214: the pages are concatenated (all rows kept, the frame has the CRS of
  the pages), reprojected to EPSG:4326 when the CRS differs, and cleaned. The source
  concatenates a non-empty list only (line 207).
\<close>

definition concat_frames :: "'f gdf list \<Rightarrow> 'f gdf" where
  "concat_frames gs = GeoDataFrame (crs (hd gs)) (concat (map rows gs))"

definition to_crs :: "('c, 'f) env \<Rightarrow> 'f gdf \<Rightarrow> string \<Rightarrow> 'f gdf" where
  "to_crs env g target = GeoDataFrame target (map (reproject_row env (crs g) target) (rows g))"

definition clean :: "('c, 'f) env \<Rightarrow> 'f gdf \<Rightarrow> 'f gdf" where
  "clean env g = GeoDataFrame (crs g) (filter (is_valid env) (filter (notnull env) (rows g)))"

definition merge_pages :: "('c, 'f) env \<Rightarrow> 'f gdf list \<Rightarrow> 'f gdf" where
  "merge_pages env all_features =
     (let full_gdf = concat_frames all_features
      in clean env (if crs full_gdf \<noteq> ''EPSG:4326'' then to_crs env full_gdf ''EPSG:4326''
                    else full_gdf))"

definition layer_filename :: "string \<Rightarrow> string" where
  "layer_filename layer = replace layer (CHR '':'') (CHR ''_'') @ ''_4326.geojson''"

definition getmap_url :: "('c, 'f) env \<Rightarrow> string \<Rightarrow> string \<Rightarrow> 'c bbox \<Rightarrow> string" where
  "getmap_url env service_url layer ext =
     service_url @ ''?service=WMS&request=GetMap'' @
     ''&layers='' @ layer @ ''&bbox='' @ bbox_str env ext @
     ''&width=500&height=500&srs=EPSG:4326&format=image/png''"

text \<open>
  One pass of \<^verbatim>\<open>for layer in layers\<close> (lines 165 to 237). The result is \<open>None\<close> when
  the pagination never ends; otherwise the exception raised, if any, and the new state.
\<close>

definition fetch_layer ::
  "('c, 'f) env \<Rightarrow> dataset \<Rightarrow> string \<Rightarrow> string \<Rightarrow> ('c, 'f) state \<Rightarrow>
   (exn option \<times> ('c, 'f) state) option" where
  "fetch_layer env dataset preferred_crs layer st =
     (if type dataset = ''WFS'' then
        (case wfs_pages env (url dataset) layer preferred_crs (extent st) 0 [] (requests st) of
           None \<Rightarrow> None
         | Some (Inl e, log) \<Rightarrow> Some (Some e, st\<lparr>requests := log\<rparr>)
         | Some (Inr all_features, log) \<Rightarrow>
             if all_features \<noteq> [] then
               if writable env (layer_filename layer) then
                 Some (None,
                   st\<lparr>requests := log,
                      written := written st @
                        [(layer_filename layer, merge_pages env all_features)],
                      results := (results st)(layer \<mapsto>
                        WFS_result (to_json env (merge_pages env all_features))
                                   (layer_filename layer))\<rparr>)
               else Some (Some OSError, st\<lparr>requests := log\<rparr>)
             else Some (None, st\<lparr>requests := log\<rparr>))
      else if type dataset = ''WMS'' then
        Some (None,
          st\<lparr>results := (results st)(layer \<mapsto>
                 WMS_result (getmap_url env (url dataset) layer (extent st)))\<rparr>)
      else Some (None, st))"

fun fetch_layers ::
  "('c, 'f) env \<Rightarrow> dataset \<Rightarrow> string \<Rightarrow> string list \<Rightarrow> ('c, 'f) state \<Rightarrow>
   (exn option \<times> ('c, 'f) state) option" where
  "fetch_layers env dataset preferred_crs [] st = Some (None, st)"
| "fetch_layers env dataset preferred_crs (layer # layers) st =
     (case fetch_layer env dataset preferred_crs layer st of
        None \<Rightarrow> None
      | Some (Some e, st') \<Rightarrow> Some (Some e, st')
      | Some (None, st') \<Rightarrow> fetch_layers env dataset preferred_crs layers st')"

text \<open>
  Lines 155 to 162: the working CRS of a dataset and the extent of its requests. The
  result is the exception raised or \<^verbatim>\<open>to_epsg\<close>, and the new state.
\<close>

definition select_crs :: "string set \<Rightarrow> nat" where
  "select_crs supported_crs =
     (if ''urn:ogc:def:crs:EPSG::28992'' \<in> supported_crs then 28992 else 4326)"

definition negotiate ::
  "('c::linorder, 'f) env \<Rightarrow> dataset \<Rightarrow> ('c, 'f) state \<Rightarrow> (exn + nat) \<times> ('c, 'f) state" where
  "negotiate env dataset st =
     (case get_supported_crs env (url dataset) of
        Inl e \<Rightarrow> (Inl e, st\<lparr>requests := requests st @ [crs_request (url dataset)]\<rparr>)
      | Inr supported_crs \<Rightarrow>
          if select_crs supported_crs \<noteq> 4326 then
            (case transform_bbox env (bbox_arg st) 4326 (select_crs supported_crs) of
               Inl e \<Rightarrow>
                 (Inl e,
                  st\<lparr>requests := requests st @ [crs_request (url dataset)],
                     transform_calls := transform_calls st @
                       [(bbox_arg st, 4326, select_crs supported_crs)]\<rparr>)
             | Inr b \<Rightarrow>
                 (Inr (select_crs supported_crs),
                  st\<lparr>requests := requests st @ [crs_request (url dataset)],
                     transform_calls := transform_calls st @
                       [(bbox_arg st, 4326, select_crs supported_crs)],
                     extent := b\<rparr>))
          else
            (Inr (select_crs supported_crs),
             st\<lparr>requests := requests st @ [crs_request (url dataset)]\<rparr>))"

text \<open>One pass of \<^verbatim>\<open>for dataset in datasets\<close> (lines 153 to 237).\<close>

definition fetch_dataset ::
  "('c::linorder, 'f) env \<Rightarrow> string list \<Rightarrow> (string \<rightharpoonup> string list) \<Rightarrow> dataset \<Rightarrow>
   ('c, 'f) state \<Rightarrow> (exn option \<times> ('c, 'f) state) option" where
  "fetch_dataset env selected_datasets dataset_layers dataset st =
     (if name dataset \<in> set selected_datasets then
        (case negotiate env dataset st of
           (Inl e, st') \<Rightarrow> Some (Some e, st')
         | (Inr to_epsg, st') \<Rightarrow>
             fetch_layers env dataset (urn to_epsg)
               (case dataset_layers (name dataset) of None \<Rightarrow> [] | Some layers \<Rightarrow> layers) st')
      else Some (None, st))"

fun fetch_datasets ::
  "('c::linorder, 'f) env \<Rightarrow> string list \<Rightarrow> (string \<rightharpoonup> string list) \<Rightarrow> dataset list \<Rightarrow>
   ('c, 'f) state \<Rightarrow> (exn option \<times> ('c, 'f) state) option" where
  "fetch_datasets env selected_datasets dataset_layers [] st = Some (None, st)"
| "fetch_datasets env selected_datasets dataset_layers (dataset # datasets) st =
     (case fetch_dataset env selected_datasets dataset_layers dataset st of
        None \<Rightarrow> None
      | Some (Some e, st') \<Rightarrow> Some (Some e, st')
      | Some (None, st') \<Rightarrow> fetch_datasets env selected_datasets dataset_layers datasets st')"

text \<open>
  The whole call. When no exception is raised, the value returned to the caller is the
  field \<open>results\<close> of the final state.
\<close>

definition fetch_geodata ::
  "('c::linorder, 'f) env \<Rightarrow> string list \<Rightarrow> (string \<rightharpoonup> string list) \<Rightarrow> dataset list \<Rightarrow>
   'c bbox \<Rightarrow> (exn option \<times> ('c, 'f) state) option" where
  "fetch_geodata env selected_datasets dataset_layers datasets bbox =
     fetch_datasets env selected_datasets dataset_layers datasets
       \<lparr>bbox_arg = bbox, extent = bbox, results = Map.empty, requests = [],
        transform_calls = [], written = []\<rparr>"

section \<open>A sample world\<close>

text \<open>
  A concrete environment on which the theorems below are instantiated: a few servers
  told apart by their URL, layers told apart by their name, integer coordinates, and a
  projection that rotates and scales.
\<close>

definition demo_caps_a :: xml where
  "demo_caps_a =
     Element ''{http://www.opengis.net/wfs/2.0}WFS_Capabilities'' None
       [Element ''{http://www.opengis.net/wfs/2.0}FeatureTypeList'' None
          [Element ''{http://www.opengis.net/wfs/2.0}FeatureType'' None
             [Element ''{http://www.opengis.net/wfs/2.0}Name'' (Some ''ns:roads'') [],
              Element ''{http://www.opengis.net/wfs/2.0}DefaultCRS''
                (Some ''urn:ogc:def:crs:EPSG::28992'') [],
              Element ''{http://www.opengis.net/wfs/2.0}OtherCRS''
                (Some '' urn:ogc:def:crs:EPSG::4326 '') []]]]"

definition demo_caps_b :: xml where
  "demo_caps_b =
     Element ''WFS_Capabilities'' None
       [Element ''FeatureTypeList'' None
          [Element ''FeatureType'' None
             [Element ''Name'' (Some ''ns:paths'') [],
              Element ''DefaultCRS'' (Some ''urn:ogc:def:crs:EPSG::4326'') []]]]"

definition demo_caps_e :: xml where
  "demo_caps_e =
     Element ''WFS_Capabilities'' None
       [Element ''FeatureType'' None
          [Element ''DefaultCRS'' (Some ''urn:ogc:def:crs:EPSG::28992'') [],
           Element ''OtherCRS'' None []]]"

definition demo_caps_wms :: xml where
  "demo_caps_wms =
     Element ''WMS_Capabilities'' None
       [Element ''Capability'' None
          [Element ''Layer'' None [Element ''Name'' (Some ''water'') []]]]"

definition demo_parse :: "string \<Rightarrow> xml option" where
  "demo_parse s =
     (if s = ''<a/>'' then Some demo_caps_a
      else if s = ''<b/>'' then Some demo_caps_b
      else if s = ''<e/>'' then Some demo_caps_e
      else if s = ''<wms/>'' then Some demo_caps_wms
      else if s = '' <wms/>'' then Some demo_caps_wms
      else if s = '' <a/>'' then Some demo_caps_a
      else None)"

definition ok :: "string \<Rightarrow> net_failure + response" where
  "ok body = Inr \<lparr>status_code = 200, content_encoding = None, content = body\<rparr>"

definition failed :: "nat \<Rightarrow> net_failure + response" where
  "failed code = Inr \<lparr>status_code = code, content_encoding = None, content = ''error''\<rparr>"

definition demo_pages :: "string \<Rightarrow> string \<Rightarrow> net_failure + response" where
  "demo_pages layer start_index =
     (if layer = ''ns:roads'' then
        (if start_index = ''0'' \<or> start_index = ''1000'' then ok ''full''
         else if start_index = ''2000'' then ok ''part'' else failed 400)
      else if layer = ''ns:rail'' then
        (if start_index = ''0'' \<or> start_index = ''1000'' then ok ''full'' else failed 500)
      else if layer = ''ns:paths'' then ok ''none''
      else failed 503)"

definition demo_http :: "request \<Rightarrow> net_failure + response" where
  "demo_http req =
     (case map_of (req_params req) ''TYPENAMES'' of
        Some layer \<Rightarrow>
          (case map_of (req_params req) ''STARTINDEX'' of
             Some start_index \<Rightarrow> demo_pages layer start_index
           | None \<Rightarrow> failed 400)
      | None \<Rightarrow>
          if req_url req = ''http://a/wfs'' then ok ''<a/>''
          else if req_url req = ''http://b/wfs'' then ok ''<b/>''
          else if req_url req = ''http://e/wfs'' then ok ''<e/>''
          else if req_url req = ''http://s/wfs'' then ok '' <a/>''
          else if req_url req = ''http://t/wfs'' then Inl Timeout
          else if req_url req = ''http://example/wms?request=GetCapabilities&service=WMS'' then
            Inr \<lparr>status_code = 203, content_encoding = None, content = ''<wms/>''\<rparr>
          else if req_url req = ''http://example/ows?request=GetCapabilities&service=WMS'' then
            ok '' <wms/>''
          else if req_url req = ''http://t/wfs?request=GetCapabilities&service=WFS'' then
            Inl ConnectionError
          else failed 404)"

definition demo_full :: "nat gdf" where
  "demo_full = GeoDataFrame ''EPSG:28992'' (replicate 1000 1)"

definition demo_part :: "nat gdf" where
  "demo_part = GeoDataFrame ''EPSG:28992'' (replicate 3 1)"

definition demo_none :: "nat gdf" where
  "demo_none = GeoDataFrame ''EPSG:4326'' []"

definition demo_read :: "string \<Rightarrow> nat gdf option" where
  "demo_read s =
     (if s = ''full'' then Some demo_full
      else if s = ''part'' then Some demo_part
      else if s = ''none'' then Some demo_none
      else None)"

definition demo_env :: "(int, nat) env" where
  "demo_env =
     \<lparr>http_get = demo_http, parse_xml = demo_parse,
      reproject = (\<lambda>f t. if f = 4326 \<and> t = 28992 then Some (\<lambda>(x, y). (x - y, x + y))
                          else None),
      fmt = str_int, gunzip = (\<lambda>s. None), read_file = demo_read,
      reproject_row = (\<lambda>f t r. r), notnull = (\<lambda>r. True), is_valid = (\<lambda>r. True),
      to_json = (\<lambda>g. ''rows:'' @ str_nat (length (rows g))),
      writable = (\<lambda>f. True)\<rparr>"

definition demo_state :: "(int, nat) state" where
  "demo_state =
     \<lparr>bbox_arg = (4, 51, 5, 52), extent = (4, 51, 5, 52), results = Map.empty, requests = [],
      transform_calls = [], written = []\<rparr>"

definition demo_wfs :: dataset where
  "demo_wfs = \<lparr>name = ''A'', url = ''http://a/wfs'', type = ''WFS''\<rparr>"

definition demo_wfs_b :: dataset where
  "demo_wfs_b = \<lparr>name = ''B'', url = ''http://b/wfs'', type = ''WFS''\<rparr>"

definition demo_wms :: dataset where
  "demo_wms = \<lparr>name = ''W'', url = ''http://example/wms'', type = ''WMS''\<rparr>"

definition demo_layers :: "string \<rightharpoonup> string list" where
  "demo_layers = [''A'' \<mapsto> [''ns:down''], ''B'' \<mapsto> [''ns:paths''], ''W'' \<mapsto> [''water'']]"

section \<open>Properties\<close>

lemma str_nat_small: "n < 10 \<Longrightarrow> str_nat n = [digit n]"
  by (simp add: str_nat.simps [of n])

lemma str_nat_large: "10 \<le> n \<Longrightarrow> str_nat n = str_nat (n div 10) @ [digit (n mod 10)]"
  by (simp add: str_nat.simps [of n])

lemma str_nat_0: "str_nat 0 = ''0''"
  by (simp add: str_nat_small digit_def)

lemma str_nat_1000: "str_nat 1000 = ''1000''"
  by (simp add: str_nat_small str_nat_large digit_def)

lemma str_nat_2000: "str_nat 2000 = ''2000''"
  by (simp add: str_nat_small str_nat_large digit_def)

lemma str_nat_4326: "str_nat 4326 = ''4326''"
  by (simp add: str_nat_small str_nat_large digit_def)

lemma str_nat_28992: "str_nat 28992 = ''28992''"
  by (simp add: str_nat_small str_nat_large digit_def)

lemmas str_nat_samples = str_nat_0 str_nat_1000 str_nat_2000 str_nat_4326 str_nat_28992

lemma collect_crs_None:
  "e \<in> set es \<Longrightarrow> endswith (tag e) ''DefaultCRS'' \<or> endswith (tag e) ''OtherCRS'' \<Longrightarrow>
   elem_text e = None \<Longrightarrow> collect_crs es s = Inl AttributeError"
  by (induction es arbitrary: s) (auto split: option.splits)

text \<open>
  Claim C10. When the capabilities document of a WFS service has an element whose tag ends
  in \<^verbatim>\<open>DefaultCRS\<close> or \<^verbatim>\<open>OtherCRS\<close> and that has no text, the loop of
  \<^verbatim>\<open>get_supported_crs\<close> raises \<^verbatim>\<open>AttributeError\<close>; the catch-all handler returns
  the empty set, so the identifiers collected from the other elements are lost.
\<close>

theorem empty_crs_element_discards_all:
  assumes "http_get env (crs_request wfs_url) = Inr response"
    and "status_code response = 200"
    and "parse_xml env (content response) = Some root"
    and "elem \<in> set (iter root)"
    and "endswith (tag elem) ''DefaultCRS'' \<or> endswith (tag elem) ''OtherCRS''"
    and "elem_text elem = None"
  shows "supported_crs_try env wfs_url = Inl AttributeError
         \<and> get_supported_crs env wfs_url = Inr {}"
  using assms collect_crs_None [of elem "iter root" "{}"]
  by (simp add: supported_crs_try_def get_supported_crs_def)

theorem empty_crs_element_discards_all_witness:
  "Element ''OtherCRS'' None [] \<in> set (iter demo_caps_e)
   \<and> Element ''DefaultCRS'' (Some ''urn:ogc:def:crs:EPSG::28992'') [] \<in> set (iter demo_caps_e)
   \<and> supported_crs_try demo_env ''http://e/wfs'' = Inl AttributeError
   \<and> get_supported_crs demo_env ''http://e/wfs'' = Inr {}"
  using empty_crs_element_discards_all [of demo_env "''http://e/wfs''"
      "\<lparr>status_code = 200, content_encoding = None, content = ''<e/>''\<rparr>"
      demo_caps_e "Element ''OtherCRS'' None []"]
  by (simp add: demo_env_def demo_http_def crs_request_def ok_def demo_parse_def
      demo_caps_e_def endswith_def)

text \<open>
  Claim C6, as amended. Neither capability operation raises. \<^verbatim>\<open>get_capabilities_layers\<close>
  returns the empty list when the request fails (timeout, connection error), when the
  status is in 400 to 599, when the body, stripped of surrounding whitespace, does not begin
  with \<^verbatim>\<open><\<close>, or when the XML parser fails. \<^verbatim>\<open>get_supported_crs\<close> returns the empty
  set when the request fails, when the status is not 200, or when the XML parser fails.
\<close>

theorem capabilities_fail_closed:
  "(\<exists>layers. get_capabilities_layers env service_url service_type = Inr layers)
   \<and> (\<exists>crs_set. get_supported_crs env service_url = Inr crs_set)
   \<and> ((case http_get env (capabilities_request service_url service_type) of
          Inl f \<Rightarrow> True
        | Inr r \<Rightarrow> (400 \<le> status_code r \<and> status_code r < 600)
                   \<or> \<not> startswith (strip (content r)) ''<''
                   \<or> parse_xml env (content r) = None)
       \<longrightarrow> get_capabilities_layers env service_url service_type = Inr [])
   \<and> ((case http_get env (crs_request service_url) of
          Inl f \<Rightarrow> True
        | Inr r \<Rightarrow> status_code r \<noteq> 200 \<or> parse_xml env (content r) = None)
       \<longrightarrow> get_supported_crs env service_url = Inr {})"
  by (auto simp: get_capabilities_layers_def capabilities_layers_try_def
      get_supported_crs_def supported_crs_try_def raise_for_status_def Let_def
      split: sum.splits option.splits)


theorem capabilities_fail_closed_witness:
  "get_capabilities_layers demo_env ''http://t/wfs'' ''WFS'' = Inr []
   \<and> get_supported_crs demo_env ''http://t/wfs'' = Inr {}
   \<and> get_capabilities_layers demo_env ''http://down/wms'' ''WMS'' = Inr []
   \<and> get_supported_crs demo_env ''http://down/wms'' = Inr {}"
  using capabilities_fail_closed [of demo_env "''http://t/wfs''" "''WFS''"]
    capabilities_fail_closed [of demo_env "''http://down/wms''" "''WMS''"]
  by (simp add: demo_env_def demo_http_def capabilities_request_def crs_request_def
      failed_def)

text \<open>
  Claim C6 as stated fails for \<^verbatim>\<open>get_capabilities_layers\<close>: a status other than 200 that
  is not an error status (here 203) with an XML body gives the layers of the body, and so
  does a body that begins with a blank before the first \<^verbatim>\<open><\<close>; for such a body
  \<^verbatim>\<open>get_supported_crs\<close> returns the identifiers of the document.
\<close>

theorem capabilities_non_200_counterexample:
  "http_get demo_env (capabilities_request ''http://example/wms'' ''WMS'') =
     Inr \<lparr>status_code = 203, content_encoding = None, content = ''<wms/>''\<rparr>
   \<and> get_capabilities_layers demo_env ''http://example/wms'' ''WMS'' = Inr [Some ''water'']
   \<and> http_get demo_env (capabilities_request ''http://example/ows'' ''WMS'') =
     Inr \<lparr>status_code = 200, content_encoding = None, content = '' <wms/>''\<rparr>
   \<and> \<not> startswith '' <wms/>'' ''<''
   \<and> get_capabilities_layers demo_env ''http://example/ows'' ''WMS'' = Inr [Some ''water'']
   \<and> http_get demo_env (crs_request ''http://s/wfs'') =
     Inr \<lparr>status_code = 200, content_encoding = None, content = '' <a/>''\<rparr>
   \<and> \<not> startswith '' <a/>'' ''<''
   \<and> get_supported_crs demo_env ''http://s/wfs'' =
     Inr {''urn:ogc:def:crs:EPSG::28992'', ''urn:ogc:def:crs:EPSG::4326''}"
proof -
  have layers: "get_capabilities_layers demo_env ''http://example/wms'' ''WMS'' =
      Inr [Some ''water'']"
    "get_capabilities_layers demo_env ''http://example/ows'' ''WMS'' = Inr [Some ''water'']"
    by (simp_all add: demo_env_def demo_http_def capabilities_request_def ok_def
        get_capabilities_layers_def capabilities_layers_try_def raise_for_status_def
        startswith_def strip_def isspace_def demo_parse_def demo_caps_wms_def findall_def
        upper_def Let_def)
  have crs: "get_supported_crs demo_env ''http://s/wfs'' =
      Inr {''urn:ogc:def:crs:EPSG::28992'', ''urn:ogc:def:crs:EPSG::4326''}"
    by (simp add: get_supported_crs_def supported_crs_try_def demo_env_def demo_http_def
        crs_request_def ok_def demo_parse_def demo_caps_a_def endswith_def strip_def
        isspace_def insert_commute)
  have answers: "http_get demo_env (capabilities_request ''http://example/wms'' ''WMS'') =
      Inr \<lparr>status_code = 203, content_encoding = None, content = ''<wms/>''\<rparr>"
    "http_get demo_env (capabilities_request ''http://example/ows'' ''WMS'') =
      Inr \<lparr>status_code = 200, content_encoding = None, content = '' <wms/>''\<rparr>"
    "http_get demo_env (crs_request ''http://s/wfs'') =
      Inr \<lparr>status_code = 200, content_encoding = None, content = '' <a/>''\<rparr>"
    by (simp_all add: demo_env_def demo_http_def capabilities_request_def crs_request_def
        ok_def)
  have blank: "\<not> startswith '' <wms/>'' ''<''" "\<not> startswith '' <a/>'' ''<''"
    by (simp_all add: startswith_def)
  show ?thesis
    using layers crs answers blank by simp
qed

text \<open>
  Claim C7. For a pair of CRS codes that pyproj knows, \<^verbatim>\<open>transform_bbox\<close> returns the
  componentwise minimum and maximum over the four projected corners of the rectangle,
  which is a valid rectangle whatever the projection does to the corners; for a pair it
  does not know, the exception goes to the caller. The bounds hold for every input
  rectangle, also one with \<open>minx > maxx\<close>.
\<close>

theorem transform_bbox_bounds:
  "(reproject env from_epsg to_epsg = Some project \<longrightarrow>
      (let P = project ` {(minx, miny), (minx, maxy), (maxx, miny), (maxx, maxy)}
       in transform_bbox env (minx, miny, maxx, maxy) from_epsg to_epsg =
            Inr (Min (fst ` P), Min (snd ` P), Max (fst ` P), Max (snd ` P))
          \<and> Min (fst ` P) \<le> Max (fst ` P) \<and> Min (snd ` P) \<le> Max (snd ` P)))
   \<and> (reproject env from_epsg to_epsg = None \<longrightarrow>
        transform_bbox env (minx, miny, maxx, maxy) from_epsg to_epsg = Inl CRSError)"
  by (simp add: transform_bbox_def box_def Let_def ac_simps)
     (simp add: le_max_iff_disj min_le_iff_disj)

theorem transform_bbox_bounds_witness:
  "transform_bbox demo_env (4, 51, 5, 52) 4326 28992 = Inr (- 48, 55, - 46, 57)
   \<and> transform_bbox demo_env (4, 51, 5, 52) 4326 99999 = Inl CRSError"
proof -
  have known: "reproject demo_env 4326 28992 = Some (\<lambda>(x, y). (x - y, x + y))"
    by (simp add: demo_env_def)
  have unknown: "reproject demo_env 4326 99999 = None"
    by (simp add: demo_env_def)
  show ?thesis
    using transform_bbox_bounds [where env = demo_env and from_epsg = 4326 and to_epsg = 28992
          and project = "\<lambda>(x, y). (x - y, x + y)"
          and minx = 4 and miny = 51 and maxx = 5 and maxy = 52]
      transform_bbox_bounds [where env = demo_env and from_epsg = 4326 and to_epsg = 99999
          and minx = 4 and miny = 51 and maxx = 5 and maxy = 52] known unknown
    by (simp add: Let_def)
qed

lemma wfs_pages_full:
  "serves env (getfeature_request env u l c ext s) g \<Longrightarrow> \<not> length (rows g) < count \<Longrightarrow>
   wfs_pages env u l c ext s acc log =
   wfs_pages env u l c ext (s + count) (acc @ [g]) (log @ [getfeature_request env u l c ext s])"
  by (subst wfs_pages.simps) (auto simp: serves_def)

lemma wfs_pages_short:
  "serves env (getfeature_request env u l c ext s) g \<Longrightarrow> length (rows g) < count \<Longrightarrow>
   wfs_pages env u l c ext s acc log =
   Some (Inr (acc @ [g]), log @ [getfeature_request env u l c ext s])"
  by (subst wfs_pages.simps) (auto simp: serves_def)

lemma wfs_pages_status:
  "http_get env (getfeature_request env u l c ext s) = Inr r \<Longrightarrow> status_code r \<noteq> 200 \<Longrightarrow>
   wfs_pages env u l c ext s acc log =
   Some (Inr acc, log @ [getfeature_request env u l c ext s])"
  by (subst wfs_pages.simps) simp

lemma wfs_pages_run:
  "(\<forall>i<n. serves env (getfeature_request env u l c ext (s + count * i)) (pages i)
           \<and> length (rows (pages i)) = count) \<Longrightarrow>
   wfs_pages env u l c ext s acc log =
   wfs_pages env u l c ext (s + count * n) (acc @ map pages [0..<n])
     (log @ map (\<lambda>i. getfeature_request env u l c ext (s + count * i)) [0..<n])"
proof (induction n)
  case 0
  show ?case by simp
next
  case (Suc n)
  then have "wfs_pages env u l c ext s acc log =
     wfs_pages env u l c ext (s + count * n) (acc @ map pages [0..<n])
       (log @ map (\<lambda>i. getfeature_request env u l c ext (s + count * i)) [0..<n])"
    by simp
  also have "\<dots> = wfs_pages env u l c ext (s + count * n + count)
       ((acc @ map pages [0..<n]) @ [pages n])
       ((log @ map (\<lambda>i. getfeature_request env u l c ext (s + count * i)) [0..<n])
         @ [getfeature_request env u l c ext (s + count * n)])"
    using Suc.prems by (intro wfs_pages_full) auto
  finally show ?case by (simp add: ac_simps)
qed

lemma rows_concat_frames: "rows (concat_frames gs) = concat (map rows gs)"
  by (simp add: concat_frames_def)

lemma length_concat_full:
  "(\<forall>i<n. length (rows (pages i)) = k) \<Longrightarrow>
   length (concat (map rows (map pages [0..<n]))) = k * n"
  by (induction n) (simp_all)


lemma length_rows_merge_pages:
  "(\<forall>f. notnull env f \<and> is_valid env f) \<Longrightarrow>
   length (rows (merge_pages env gs)) = length (concat (map rows gs))"
  by (simp add: merge_pages_def clean_def to_crs_def rows_concat_frames Let_def)

lemma getfeature_params:
  "map_of (req_params (getfeature_request env u l c ext s)) ''COUNT'' = Some ''1000''
   \<and> map_of (req_params (getfeature_request env u l c ext s)) ''STARTINDEX'' = Some (str_nat s)"
  by (simp add: getfeature_request_def count_def str_nat_1000)

lemma length_rows_reprojected:
  "length (rows (if crs g \<noteq> target then to_crs env g target else g)) = length (rows g)"
  by (simp add: to_crs_def)

lemma merge_pages_clean:
  "merge_pages env gs =
     clean env (if crs (concat_frames gs) \<noteq> ''EPSG:4326''
                then to_crs env (concat_frames gs) ''EPSG:4326'' else concat_frames gs)"
  by (simp add: merge_pages_def Let_def)

text \<open>
  Claim C3. When the server answers the requests with start index \<open>0, 1000, \<dots>,
  1000 * (N - 1)\<close> with full pages of 1000 rows and the request with start index
  \<open>1000 * N\<close> with \<open>k < 1000\<close> rows, the pagination loop of a WFS layer returns after
  exactly these \<open>N + 1\<close> requests, each with \<^verbatim>\<open>COUNT\<close> 1000. The pass over the layer
  then merges all \<open>N + 1\<close> pages: the frame it writes and registers is the cleaned
  (and, where the CRS differs, reprojected) concatenation of the pages, and that
  concatenation has \<open>1000 * N + k\<close> rows before cleaning, also after the reprojection;
  the written frame has as many when no row is null or invalid. When the file cannot be
  written, the pass raises after the same requests and registers nothing.
\<close>

theorem pagination_stops_at_short_page:
  assumes full: "\<forall>i<N. serves env
        (getfeature_request env (url dataset) layer c (extent st) (1000 * i)) (pages i)
      \<and> length (rows (pages i)) = 1000"
    and last: "serves env
        (getfeature_request env (url dataset) layer c (extent st) (1000 * N)) (pages N)"
    and short: "length (rows (pages N)) = k" "k < 1000"
    and wfs: "type dataset = ''WFS''"
  shows "wfs_pages env (url dataset) layer c (extent st) 0 [] (requests st) =
           Some (Inr (map pages [0..<Suc N]),
                 requests st @
                 map (\<lambda>i. getfeature_request env (url dataset) layer c (extent st) (1000 * i))
                   [0..<Suc N])
         \<and> length (rows (concat_frames (map pages [0..<Suc N]))) = 1000 * N + k
         \<and> (\<exists>r st'. fetch_layer env dataset c layer st = Some (r, st')
              \<and> requests st' = requests st @
                 map (\<lambda>i. getfeature_request env (url dataset) layer c (extent st) (1000 * i))
                   [0..<Suc N])
         \<and> (\<forall>i. map_of (req_params
                (getfeature_request env (url dataset) layer c (extent st) (1000 * i))) ''COUNT''
                  = Some ''1000''
              \<and> map_of (req_params
                (getfeature_request env (url dataset) layer c (extent st) (1000 * i)))
                  ''STARTINDEX'' = Some (str_nat (1000 * i)))
         \<and> (writable env (layer_filename layer) \<longrightarrow>
              fetch_layer env dataset c layer st =
                Some (None,
                  st\<lparr>requests := requests st @
                       map (\<lambda>i. getfeature_request env (url dataset) layer c (extent st)
                                   (1000 * i)) [0..<Suc N],
                     written := written st @
                       [(layer_filename layer, merge_pages env (map pages [0..<Suc N]))],
                     results := (results st)(layer \<mapsto>
                       WFS_result (to_json env (merge_pages env (map pages [0..<Suc N])))
                                  (layer_filename layer))\<rparr>))
         \<and> (\<not> writable env (layer_filename layer) \<longrightarrow>
              fetch_layer env dataset c layer st =
                Some (Some OSError,
                  st\<lparr>requests := requests st @
                       map (\<lambda>i. getfeature_request env (url dataset) layer c (extent st)
                                   (1000 * i)) [0..<Suc N]\<rparr>))
         \<and> merge_pages env (map pages [0..<Suc N]) =
             clean env
               (if crs (concat_frames (map pages [0..<Suc N])) \<noteq> ''EPSG:4326''
                then to_crs env (concat_frames (map pages [0..<Suc N])) ''EPSG:4326''
                else concat_frames (map pages [0..<Suc N]))
         \<and> length (rows
               (if crs (concat_frames (map pages [0..<Suc N])) \<noteq> ''EPSG:4326''
                then to_crs env (concat_frames (map pages [0..<Suc N])) ''EPSG:4326''
                else concat_frames (map pages [0..<Suc N]))) = 1000 * N + k
         \<and> ((\<forall>f. notnull env f \<and> is_valid env f) \<longrightarrow>
              length (rows (merge_pages env (map pages [0..<Suc N]))) = 1000 * N + k)"
proof -
  let ?req = "\<lambda>i. getfeature_request env (url dataset) layer c (extent st) (1000 * i)"
  let ?ps = "map pages [0..<Suc N]"
  have "wfs_pages env (url dataset) layer c (extent st) 0 [] (requests st) =
        wfs_pages env (url dataset) layer c (extent st) (0 + count * N) ([] @ map pages [0..<N])
          (requests st @
           map (\<lambda>i. getfeature_request env (url dataset) layer c (extent st) (0 + count * i))
             [0..<N])"
    using full by (intro wfs_pages_run) (simp add: count_def)
  also have "\<dots> = Some (Inr (([] @ map pages [0..<N]) @ [pages N]),
       (requests st @
           map (\<lambda>i. getfeature_request env (url dataset) layer c (extent st) (0 + count * i))
             [0..<N]) @ [getfeature_request env (url dataset) layer c (extent st) (0 + count * N)])"
    using last short by (intro wfs_pages_short) (simp_all add: count_def)
  finally have run: "wfs_pages env (url dataset) layer c (extent st) 0 [] (requests st) =
      Some (Inr ?ps, requests st @ map ?req [0..<Suc N])"
    by (simp add: count_def)
  have "length (concat (map rows (map pages [0..<N]))) = 1000 * N"
    using full by (intro length_concat_full) simp
  then have len: "length (rows (concat_frames ?ps)) = 1000 * N + k"
    using short by (simp add: rows_concat_frames)
  have nonempty: "?ps \<noteq> []"
    by simp
  have layer: "\<exists>r st'. fetch_layer env dataset c layer st = Some (r, st')
      \<and> requests st' = requests st @ map ?req [0..<Suc N]"
    using wfs run by (simp add: fetch_layer_def)
  have ok: "writable env (layer_filename layer) \<longrightarrow>
      fetch_layer env dataset c layer st =
        Some (None,
          st\<lparr>requests := requests st @ map ?req [0..<Suc N],
             written := written st @ [(layer_filename layer, merge_pages env ?ps)],
             results := (results st)(layer \<mapsto>
               WFS_result (to_json env (merge_pages env ?ps)) (layer_filename layer))\<rparr>)"
    using wfs nonempty by (simp add: fetch_layer_def run del: upt_Suc map_is_Nil_conv)
  have ko: "\<not> writable env (layer_filename layer) \<longrightarrow>
      fetch_layer env dataset c layer st =
        Some (Some OSError, st\<lparr>requests := requests st @ map ?req [0..<Suc N]\<rparr>)"
    using wfs nonempty by (simp add: fetch_layer_def run del: upt_Suc map_is_Nil_conv)
  have merged: "merge_pages env ?ps =
      clean env (if crs (concat_frames ?ps) \<noteq> ''EPSG:4326''
                 then to_crs env (concat_frames ?ps) ''EPSG:4326'' else concat_frames ?ps)"
    by (rule merge_pages_clean)
  have before: "length (rows (if crs (concat_frames ?ps) \<noteq> ''EPSG:4326''
                 then to_crs env (concat_frames ?ps) ''EPSG:4326'' else concat_frames ?ps))
      = 1000 * N + k"
    using len by (simp only: length_rows_reprojected)
  have after: "(\<forall>f. notnull env f \<and> is_valid env f) \<longrightarrow>
      length (rows (merge_pages env ?ps)) = 1000 * N + k"
    using len by (simp add: length_rows_merge_pages rows_concat_frames del: upt_Suc)
  from run len layer getfeature_params ok ko merged before after
  show ?thesis
    by (intro conjI) blast+
qed

text \<open>
  Claim C4. When \<open>N > 0\<close> full pages are followed by an answer with a status other than
  200, the loop stops without an exception; the \<open>N\<close> pages are merged, written under the
  file name derived from the layer and registered under the layer name (the file being
  writable). The merged frame has \<open>1000 * N\<close> rows before cleaning, and the written frame
  as many when no row is null or invalid.
\<close>

theorem failed_page_keeps_earlier_pages:
  assumes some: "0 < N"
    and full: "\<forall>i<N. serves env
        (getfeature_request env (url dataset) layer c (extent st) (1000 * i)) (pages i)
      \<and> length (rows (pages i)) = 1000"
    and bad: "http_get env
        (getfeature_request env (url dataset) layer c (extent st) (1000 * N)) = Inr r"
      "status_code r \<noteq> 200"
    and wfs: "type dataset = ''WFS''"
    and disk: "writable env (layer_filename layer)"
  shows "fetch_layer env dataset c layer st =
           Some (None,
             st\<lparr>requests := requests st @
                  map (\<lambda>i. getfeature_request env (url dataset) layer c (extent st) (1000 * i))
                    [0..<Suc N],
                written := written st @
                  [(layer_filename layer, merge_pages env (map pages [0..<N]))],
                results := (results st)(layer \<mapsto>
                  WFS_result (to_json env (merge_pages env (map pages [0..<N])))
                             (layer_filename layer))\<rparr>)
         \<and> length (rows (concat_frames (map pages [0..<N]))) = 1000 * N
         \<and> ((\<forall>f. notnull env f \<and> is_valid env f) \<longrightarrow>
              length (rows (merge_pages env (map pages [0..<N]))) = 1000 * N)"
proof -
  let ?req = "\<lambda>i. getfeature_request env (url dataset) layer c (extent st) (1000 * i)"
  have "wfs_pages env (url dataset) layer c (extent st) 0 [] (requests st) =
        wfs_pages env (url dataset) layer c (extent st) (0 + count * N) ([] @ map pages [0..<N])
          (requests st @
           map (\<lambda>i. getfeature_request env (url dataset) layer c (extent st) (0 + count * i))
             [0..<N])"
    using full by (intro wfs_pages_run) (simp add: count_def)
  also have "\<dots> = Some (Inr ([] @ map pages [0..<N]),
       (requests st @
           map (\<lambda>i. getfeature_request env (url dataset) layer c (extent st) (0 + count * i))
             [0..<N]) @ [getfeature_request env (url dataset) layer c (extent st) (0 + count * N)])"
    using bad by (intro wfs_pages_status [where r = r]) (simp_all add: count_def)
  finally have run: "wfs_pages env (url dataset) layer c (extent st) 0 [] (requests st) =
      Some (Inr (map pages [0..<N]), requests st @ map ?req [0..<Suc N])"
    by (simp add: count_def)
  have nonempty: "map pages [0..<N] \<noteq> []"
    using some by simp
  have len: "length (concat (map rows (map pages [0..<N]))) = 1000 * N"
    using full by (intro length_concat_full) simp
  have layer: "fetch_layer env dataset c layer st =
           Some (None,
             st\<lparr>requests := requests st @ map ?req [0..<Suc N],
                written := written st @
                  [(layer_filename layer, merge_pages env (map pages [0..<N]))],
                results := (results st)(layer \<mapsto>
                  WFS_result (to_json env (merge_pages env (map pages [0..<N])))
                             (layer_filename layer))\<rparr>)"
    using wfs disk nonempty by (simp add: fetch_layer_def run del: upt_Suc map_is_Nil_conv)
  show ?thesis
    using layer len by (simp add: rows_concat_frames length_rows_merge_pages del: upt_Suc)
qed

text \<open>
  Claim C9. For a WFS layer whose first page has a status other than 200, the pass over
  the layer only logs the request: nothing is registered and nothing written. When the
  first page has status 200 and no rows, an empty frame is written and a WFS result is
  registered under the layer name.
\<close>

theorem first_page_outcomes:
  assumes wfs: "type dataset = ''WFS''"
  shows "(\<forall>r. http_get env (getfeature_request env (url dataset) layer c (extent st) 0) = Inr r
              \<and> status_code r \<noteq> 200 \<longrightarrow>
            fetch_layer env dataset c layer st =
              Some (None, st\<lparr>requests := requests st @
                 [getfeature_request env (url dataset) layer c (extent st) 0]\<rparr>))
         \<and> (\<forall>g. serves env (getfeature_request env (url dataset) layer c (extent st) 0) g
              \<and> rows g = [] \<and> writable env (layer_filename layer) \<longrightarrow>
            fetch_layer env dataset c layer st =
              Some (None,
                st\<lparr>requests := requests st @
                     [getfeature_request env (url dataset) layer c (extent st) 0],
                   written := written st @ [(layer_filename layer, merge_pages env [g])],
                   results := (results st)(layer \<mapsto>
                     WFS_result (to_json env (merge_pages env [g])) (layer_filename layer))\<rparr>)
            \<and> rows (merge_pages env [g]) = [])"
proof (intro conjI allI impI)
  fix r
  assume "http_get env (getfeature_request env (url dataset) layer c (extent st) 0) = Inr r
    \<and> status_code r \<noteq> 200"
  then have "wfs_pages env (url dataset) layer c (extent st) 0 [] (requests st) =
      Some (Inr [], requests st @ [getfeature_request env (url dataset) layer c (extent st) 0])"
    by (intro wfs_pages_status [where r = r]) simp_all
  with wfs show "fetch_layer env dataset c layer st =
      Some (None, st\<lparr>requests := requests st @
         [getfeature_request env (url dataset) layer c (extent st) 0]\<rparr>)"
    by (simp add: fetch_layer_def)
next
  fix g
  assume g: "serves env (getfeature_request env (url dataset) layer c (extent st) 0) g
    \<and> rows g = [] \<and> writable env (layer_filename layer)"
  then have "wfs_pages env (url dataset) layer c (extent st) 0 [] (requests st) =
      Some (Inr ([] @ [g]),
            requests st @ [getfeature_request env (url dataset) layer c (extent st) 0])"
    by (intro wfs_pages_short) (simp_all add: count_def)
  with wfs g show "fetch_layer env dataset c layer st =
      Some (None,
        st\<lparr>requests := requests st @
             [getfeature_request env (url dataset) layer c (extent st) 0],
           written := written st @ [(layer_filename layer, merge_pages env [g])],
           results := (results st)(layer \<mapsto>
             WFS_result (to_json env (merge_pages env [g])) (layer_filename layer))\<rparr>)"
    by (simp add: fetch_layer_def)
next
  fix g
  assume "serves env (getfeature_request env (url dataset) layer c (extent st) 0) g
    \<and> rows g = [] \<and> writable env (layer_filename layer)"
  then show "rows (merge_pages env [g]) = []"
    by (simp add: merge_pages_def clean_def to_crs_def concat_frames_def Let_def)
qed

lemma demo_serves:
  "http_get demo_env (getfeature_request demo_env u l c ext s) = demo_pages l (str_nat s)"
  by (simp add: demo_env_def demo_http_def getfeature_request_def)

lemma demo_decode:
  "decode_page demo_env \<lparr>status_code = 200, content_encoding = None, content = body\<rparr> =
     (case demo_read body of None \<Rightarrow> Inl DataSourceError | Some g \<Rightarrow> Inr g)"
  by (simp add: decode_page_def demo_env_def lower_def)

theorem pagination_stops_at_short_page_witness:
  "wfs_pages demo_env ''http://a/wfs'' ''ns:roads'' ''urn:ogc:def:crs:EPSG::28992''
     (4, 51, 5, 52) 0 [] [] =
     Some (Inr [demo_full, demo_full, demo_part],
           map (\<lambda>i. getfeature_request demo_env ''http://a/wfs'' ''ns:roads''
                       ''urn:ogc:def:crs:EPSG::28992'' (4, 51, 5, 52) (1000 * i)) [0, 1, 2])
   \<and> length (rows (concat_frames [demo_full, demo_full, demo_part])) = 2003
   \<and> fetch_layer demo_env demo_wfs ''urn:ogc:def:crs:EPSG::28992'' ''ns:roads'' demo_state =
     Some (None,
       demo_state\<lparr>requests :=
           map (\<lambda>i. getfeature_request demo_env ''http://a/wfs'' ''ns:roads''
                       ''urn:ogc:def:crs:EPSG::28992'' (4, 51, 5, 52) (1000 * i)) [0, 1, 2],
         written := [(''ns_roads_4326.geojson'',
                      merge_pages demo_env [demo_full, demo_full, demo_part])],
         results := [''ns:roads'' \<mapsto>
           WFS_result (to_json demo_env (merge_pages demo_env [demo_full, demo_full, demo_part]))
             ''ns_roads_4326.geojson'']\<rparr>)
   \<and> length (rows (merge_pages demo_env [demo_full, demo_full, demo_part])) = 2003"
proof -
  let ?pages = "\<lambda>i::nat. if i < 2 then demo_full else demo_part"
  have page: "serves demo_env
        (getfeature_request demo_env (url demo_wfs) ''ns:roads'' ''urn:ogc:def:crs:EPSG::28992''
           (extent demo_state) (1000 * i)) demo_full" if "i = 0 \<or> i = 1" for i :: nat
    using that
    by (auto simp: serves_def demo_serves demo_pages_def ok_def demo_decode
        demo_read_def str_nat_samples)
  have full: "\<forall>i<2. serves demo_env
        (getfeature_request demo_env (url demo_wfs) ''ns:roads'' ''urn:ogc:def:crs:EPSG::28992''
           (extent demo_state) (1000 * i)) (?pages i)
      \<and> length (rows (?pages i)) = 1000"
  proof (intro allI impI)
    fix i :: nat
    assume "i < 2"
    then have "i = 0 \<or> i = 1" by arith
    with page [of i] \<open>i < 2\<close> show "serves demo_env
        (getfeature_request demo_env (url demo_wfs) ''ns:roads'' ''urn:ogc:def:crs:EPSG::28992''
           (extent demo_state) (1000 * i)) (?pages i)
      \<and> length (rows (?pages i)) = 1000"
      by (simp add: demo_full_def)
  qed
  have last: "serves demo_env
        (getfeature_request demo_env (url demo_wfs) ''ns:roads'' ''urn:ogc:def:crs:EPSG::28992''
           (extent demo_state) (1000 * 2)) (?pages 2)"
    by (simp add: serves_def demo_serves demo_pages_def ok_def demo_decode
        demo_read_def str_nat_samples)
  have short: "length (rows (?pages 2)) = 3" "(3::nat) < 1000"
    by (simp_all add: demo_part_def)
  have wfs: "type demo_wfs = ''WFS''"
    by (simp add: demo_wfs_def)
  have disk: "writable demo_env (layer_filename ''ns:roads'')"
    by (simp add: demo_env_def)
  have valid: "\<forall>f. notnull demo_env f \<and> is_valid demo_env f"
    by (simp add: demo_env_def)
  have name: "layer_filename ''ns:roads'' = ''ns_roads_4326.geojson''"
    by (simp add: layer_filename_def replace_def)
  have upt3: "[0..<3] = [0, 1, 2::nat]" "[0..<Suc 2] = [0, 1, 2]"
    by (simp_all add: upt_rec)
  note inst = pagination_stops_at_short_page [OF full last short wfs]
  have run: "wfs_pages demo_env ''http://a/wfs'' ''ns:roads'' ''urn:ogc:def:crs:EPSG::28992''
     (4, 51, 5, 52) 0 [] [] =
     Some (Inr [demo_full, demo_full, demo_part],
           map (\<lambda>i. getfeature_request demo_env ''http://a/wfs'' ''ns:roads''
                       ''urn:ogc:def:crs:EPSG::28992'' (4, 51, 5, 52) (1000 * i)) [0, 1, 2])"
    using inst [THEN conjunct1] by (simp add: upt3 demo_wfs_def demo_state_def del: upt_Suc)
  have len: "length (rows (concat_frames [demo_full, demo_full, demo_part])) = 2003"
    using inst [THEN conjunct2, THEN conjunct1] by (simp add: upt3 del: upt_Suc)
  have layer: "fetch_layer demo_env demo_wfs ''urn:ogc:def:crs:EPSG::28992'' ''ns:roads''
      demo_state =
     Some (None,
       demo_state\<lparr>requests :=
           map (\<lambda>i. getfeature_request demo_env ''http://a/wfs'' ''ns:roads''
                       ''urn:ogc:def:crs:EPSG::28992'' (4, 51, 5, 52) (1000 * i)) [0, 1, 2],
         written := [(''ns_roads_4326.geojson'',
                      merge_pages demo_env [demo_full, demo_full, demo_part])],
         results := [''ns:roads'' \<mapsto>
           WFS_result (to_json demo_env (merge_pages demo_env [demo_full, demo_full, demo_part]))
             ''ns_roads_4326.geojson'']\<rparr>)"
    using inst [THEN conjunct2, THEN conjunct2, THEN conjunct2, THEN conjunct2, THEN conjunct1]
      disk
    by (simp add: upt3 name demo_wfs_def demo_state_def del: upt_Suc)
  have merged: "length (rows (merge_pages demo_env [demo_full, demo_full, demo_part])) = 2003"
    using inst [THEN conjunct2, THEN conjunct2, THEN conjunct2, THEN conjunct2, THEN conjunct2,
        THEN conjunct2, THEN conjunct2, THEN conjunct2] valid
    by (simp add: upt3 del: upt_Suc)
  from run len layer merged show ?thesis
    by (intro conjI)
qed

lemma demo_lengths:
  "length (rows demo_full) = 1000" "length (rows demo_part) = 3" "rows demo_none = []"
  by (simp_all add: demo_full_def demo_part_def demo_none_def)

theorem failed_page_keeps_earlier_pages_witness:
  "fetch_layer demo_env demo_wfs ''urn:ogc:def:crs:EPSG::28992'' ''ns:rail'' demo_state =
     Some (None,
       demo_state\<lparr>requests :=
           map (\<lambda>i. getfeature_request demo_env ''http://a/wfs'' ''ns:rail''
                       ''urn:ogc:def:crs:EPSG::28992'' (4, 51, 5, 52) (1000 * i)) [0, 1, 2],
         written := [(''ns_rail_4326.geojson'', merge_pages demo_env [demo_full, demo_full])],
         results := [''ns:rail'' \<mapsto>
           WFS_result (to_json demo_env (merge_pages demo_env [demo_full, demo_full]))
             ''ns_rail_4326.geojson'']\<rparr>)
   \<and> length (rows (merge_pages demo_env [demo_full, demo_full])) = 2000"
proof -
  let ?pages = "\<lambda>i::nat. demo_full"
  have page: "serves demo_env
        (getfeature_request demo_env (url demo_wfs) ''ns:rail'' ''urn:ogc:def:crs:EPSG::28992''
           (extent demo_state) (1000 * i)) demo_full" if "i = 0 \<or> i = 1" for i :: nat
    using that
    by (auto simp: serves_def demo_serves demo_pages_def ok_def demo_decode
        demo_read_def str_nat_samples)
  have full: "\<forall>i<2. serves demo_env
        (getfeature_request demo_env (url demo_wfs) ''ns:rail'' ''urn:ogc:def:crs:EPSG::28992''
           (extent demo_state) (1000 * i)) (?pages i)
      \<and> length (rows (?pages i)) = 1000"
  proof (intro allI impI)
    fix i :: nat
    assume "i < 2"
    then have "i = 0 \<or> i = 1" by arith
    with page [of i] show "serves demo_env
        (getfeature_request demo_env (url demo_wfs) ''ns:rail'' ''urn:ogc:def:crs:EPSG::28992''
           (extent demo_state) (1000 * i)) (?pages i)
      \<and> length (rows (?pages i)) = 1000"
      by (simp add: demo_lengths)
  qed
  have bad: "http_get demo_env
        (getfeature_request demo_env (url demo_wfs) ''ns:rail'' ''urn:ogc:def:crs:EPSG::28992''
           (extent demo_state) (1000 * 2)) =
        Inr \<lparr>status_code = 500, content_encoding = None, content = ''error''\<rparr>"
    "status_code \<lparr>status_code = 500, content_encoding = None, content = ''error''\<rparr> \<noteq> 200"
    by (simp_all add: demo_serves demo_pages_def failed_def str_nat_samples)
  have wfs: "type demo_wfs = ''WFS''"
    by (simp add: demo_wfs_def)
  have disk: "writable demo_env (layer_filename ''ns:rail'')"
    by (simp add: demo_env_def)
  have clean: "\<forall>f. notnull demo_env f \<and> is_valid demo_env f"
    by (simp add: demo_env_def)
  have upt: "[0..<3] = [0, 1, 2::nat]" "[0..<2] = [0, 1::nat]"
    by (simp_all add: upt_rec)
  have name: "layer_filename ''ns:rail'' = ''ns_rail_4326.geojson''"
    by (simp add: layer_filename_def replace_def)
  have some: "0 < (2::nat)"
    by simp
  note inst = failed_page_keeps_earlier_pages [OF some full bad wfs disk]
  have layer: "fetch_layer demo_env demo_wfs ''urn:ogc:def:crs:EPSG::28992'' ''ns:rail''
      demo_state =
     Some (None,
       demo_state\<lparr>requests :=
           map (\<lambda>i. getfeature_request demo_env ''http://a/wfs'' ''ns:rail''
                       ''urn:ogc:def:crs:EPSG::28992'' (4, 51, 5, 52) (1000 * i)) [0, 1, 2],
         written := [(''ns_rail_4326.geojson'', merge_pages demo_env [demo_full, demo_full])],
         results := [''ns:rail'' \<mapsto>
           WFS_result (to_json demo_env (merge_pages demo_env [demo_full, demo_full]))
             ''ns_rail_4326.geojson'']\<rparr>)"
    using inst [THEN conjunct1]
    by (simp add: upt name demo_wfs_def demo_state_def del: upt_Suc)
  have len: "length (rows (merge_pages demo_env [demo_full, demo_full])) = 2000"
    using inst [THEN conjunct2, THEN conjunct2] clean by (simp add: upt del: upt_Suc)
  show ?thesis
    using layer len by (rule conjI)
qed

theorem first_page_outcomes_witness:
  "fetch_layer demo_env demo_wfs ''urn:ogc:def:crs:EPSG::4326'' ''ns:down'' demo_state =
     Some (None,
       demo_state\<lparr>requests :=
         [getfeature_request demo_env ''http://a/wfs'' ''ns:down''
            ''urn:ogc:def:crs:EPSG::4326'' (4, 51, 5, 52) 0]\<rparr>)
   \<and> fetch_layer demo_env demo_wfs ''urn:ogc:def:crs:EPSG::4326'' ''ns:paths'' demo_state =
     Some (None,
       demo_state\<lparr>requests :=
           [getfeature_request demo_env ''http://a/wfs'' ''ns:paths''
              ''urn:ogc:def:crs:EPSG::4326'' (4, 51, 5, 52) 0],
         written := [(''ns_paths_4326.geojson'', merge_pages demo_env [demo_none])],
         results := [''ns:paths'' \<mapsto>
           WFS_result (to_json demo_env (merge_pages demo_env [demo_none]))
             ''ns_paths_4326.geojson'']\<rparr>)
   \<and> rows (merge_pages demo_env [demo_none]) = []"
proof -
  have wfs: "type demo_wfs = ''WFS''"
    by (simp add: demo_wfs_def)
  have down: "http_get demo_env
        (getfeature_request demo_env (url demo_wfs) ''ns:down'' ''urn:ogc:def:crs:EPSG::4326''
           (extent demo_state) 0) =
        Inr \<lparr>status_code = 503, content_encoding = None, content = ''error''\<rparr>
      \<and> status_code \<lparr>status_code = 503, content_encoding = None, content = ''error''\<rparr> \<noteq> 200"
    by (simp add: demo_serves demo_pages_def failed_def)
  have none: "serves demo_env
        (getfeature_request demo_env (url demo_wfs) ''ns:paths'' ''urn:ogc:def:crs:EPSG::4326''
           (extent demo_state) 0) demo_none
      \<and> rows demo_none = [] \<and> writable demo_env (layer_filename ''ns:paths'')"
    by (simp add: serves_def demo_serves demo_pages_def ok_def demo_decode demo_read_def
        demo_lengths) (simp add: demo_env_def)
  have name: "layer_filename ''ns:paths'' = ''ns_paths_4326.geojson''"
    by (simp add: layer_filename_def replace_def)
  have first: "fetch_layer demo_env demo_wfs ''urn:ogc:def:crs:EPSG::4326'' ''ns:down''
      demo_state =
     Some (None,
       demo_state\<lparr>requests :=
         [getfeature_request demo_env ''http://a/wfs'' ''ns:down''
            ''urn:ogc:def:crs:EPSG::4326'' (4, 51, 5, 52) 0]\<rparr>)"
    using first_page_outcomes [OF wfs, THEN conjunct1, rule_format, OF down]
    by (simp add: demo_wfs_def demo_state_def)
  have second: "fetch_layer demo_env demo_wfs ''urn:ogc:def:crs:EPSG::4326'' ''ns:paths''
      demo_state =
     Some (None,
       demo_state\<lparr>requests :=
           [getfeature_request demo_env ''http://a/wfs'' ''ns:paths''
              ''urn:ogc:def:crs:EPSG::4326'' (4, 51, 5, 52) 0],
         written := [(''ns_paths_4326.geojson'', merge_pages demo_env [demo_none])],
         results := [''ns:paths'' \<mapsto>
           WFS_result (to_json demo_env (merge_pages demo_env [demo_none]))
             ''ns_paths_4326.geojson'']\<rparr>)
   \<and> rows (merge_pages demo_env [demo_none]) = []"
    using first_page_outcomes [OF wfs, THEN conjunct2, rule_format, OF none]
    by (simp add: name demo_wfs_def demo_state_def)
  show ?thesis
    using first second by simp
qed

lemma fetch_layer_frame:
  "fetch_layer env dataset c layer st = Some (r, st') \<Longrightarrow>
   bbox_arg st' = bbox_arg st \<and> transform_calls st' = transform_calls st
   \<and> extent st' = extent st"
  by (auto simp: fetch_layer_def split: if_splits option.splits sum.splits prod.splits)

lemma fetch_layers_frame:
  "fetch_layers env dataset c layers st = Some (r, st') \<Longrightarrow>
   bbox_arg st' = bbox_arg st \<and> transform_calls st' = transform_calls st
   \<and> extent st' = extent st"
proof (induction layers arbitrary: st)
  case Nil
  then show ?case by simp
next
  case (Cons layer layers)
  from Cons.prems obtain r1 st1 where
    step: "fetch_layer env dataset c layer st = Some (r1, st1)"
    by (auto split: option.splits)
  note frame1 = fetch_layer_frame [OF step]
  show ?case
  proof (cases r1)
    case None
    with Cons.prems step have "fetch_layers env dataset c layers st1 = Some (r, st')"
      by simp
    from Cons.IH [OF this] frame1 show ?thesis by simp
  next
    case (Some e)
    with Cons.prems step have "st' = st1" by simp
    with frame1 show ?thesis by simp
  qed
qed

lemma select_crs_cases:
  "select_crs s = (if ''urn:ogc:def:crs:EPSG::28992'' \<in> s then 28992 else 4326)"
  by (simp add: select_crs_def)

lemma get_supported_crs_returns: "\<exists>s. get_supported_crs env u = Inr s"
  by (simp add: get_supported_crs_def split: sum.splits)

lemma negotiate_frame:
  "bbox_arg (snd (negotiate env dataset st)) = bbox_arg st
   \<and> (transform_calls (snd (negotiate env dataset st)) = transform_calls st
      \<or> transform_calls (snd (negotiate env dataset st)) =
          transform_calls st @ [(bbox_arg st, 4326, 28992)])"
  using get_supported_crs_returns [of env "url dataset"]
  by (auto simp: negotiate_def select_crs_def split: sum.splits)

text \<open>
  Claim C5. When the set of the CRS negotiator contains the URN of EPSG:28992, the working
  CRS is 28992 and \<^verbatim>\<open>transform_bbox\<close> is called (once, on the caller's bbox, from 4326
  to 28992); otherwise the working CRS is 4326 and no call is made. The same count of
  calls holds for the whole pass over a selected dataset.
\<close>

theorem crs_selection_policy:
  assumes "get_supported_crs env (url dataset) = Inr supported_crs"
  shows "(''urn:ogc:def:crs:EPSG::28992'' \<in> supported_crs \<longrightarrow>
            select_crs supported_crs = 28992
          \<and> transform_calls (snd (negotiate env dataset st)) =
              transform_calls st @ [(bbox_arg st, 4326, 28992)]
          \<and> fst (negotiate env dataset st) =
              (case transform_bbox env (bbox_arg st) 4326 28992 of
                 Inl e \<Rightarrow> Inl e | Inr b \<Rightarrow> Inr 28992)
          \<and> (\<forall>b. transform_bbox env (bbox_arg st) 4326 28992 = Inr b \<longrightarrow>
                extent (snd (negotiate env dataset st)) = b))
       \<and> (''urn:ogc:def:crs:EPSG::28992'' \<notin> supported_crs \<longrightarrow>
            select_crs supported_crs = 4326
          \<and> negotiate env dataset st =
              (Inr 4326, st\<lparr>requests := requests st @ [crs_request (url dataset)]\<rparr>))
       \<and> (\<forall>selected_datasets dataset_layers r st'.
            name dataset \<in> set selected_datasets
            \<and> fetch_dataset env selected_datasets dataset_layers dataset st = Some (r, st') \<longrightarrow>
            transform_calls st' = transform_calls st @
              (if ''urn:ogc:def:crs:EPSG::28992'' \<in> supported_crs
               then [(bbox_arg st, 4326, 28992)] else []))"
proof (intro conjI)
  show "''urn:ogc:def:crs:EPSG::28992'' \<in> supported_crs \<longrightarrow>
            select_crs supported_crs = 28992
          \<and> transform_calls (snd (negotiate env dataset st)) =
              transform_calls st @ [(bbox_arg st, 4326, 28992)]
          \<and> fst (negotiate env dataset st) =
              (case transform_bbox env (bbox_arg st) 4326 28992 of
                 Inl e \<Rightarrow> Inl e | Inr b \<Rightarrow> Inr 28992)
          \<and> (\<forall>b. transform_bbox env (bbox_arg st) 4326 28992 = Inr b \<longrightarrow>
                extent (snd (negotiate env dataset st)) = b)"
    using assms by (auto simp: negotiate_def select_crs_def split: sum.splits)
  show "''urn:ogc:def:crs:EPSG::28992'' \<notin> supported_crs \<longrightarrow>
            select_crs supported_crs = 4326
          \<and> negotiate env dataset st =
              (Inr 4326, st\<lparr>requests := requests st @ [crs_request (url dataset)]\<rparr>)"
    using assms by (simp add: negotiate_def select_crs_def)
  show "\<forall>selected_datasets dataset_layers r st'.
            name dataset \<in> set selected_datasets
            \<and> fetch_dataset env selected_datasets dataset_layers dataset st = Some (r, st') \<longrightarrow>
            transform_calls st' = transform_calls st @
              (if ''urn:ogc:def:crs:EPSG::28992'' \<in> supported_crs
               then [(bbox_arg st, 4326, 28992)] else [])"
  proof (intro allI impI)
    fix selected_datasets dataset_layers r st'
    assume both: "name dataset \<in> set selected_datasets
      \<and> fetch_dataset env selected_datasets dataset_layers dataset st = Some (r, st')"
    then have sel: "name dataset \<in> set selected_datasets"
      and run: "fetch_dataset env selected_datasets dataset_layers dataset st = Some (r, st')"
      by simp_all
    have calls: "transform_calls (snd (negotiate env dataset st)) = transform_calls st @
              (if ''urn:ogc:def:crs:EPSG::28992'' \<in> supported_crs
               then [(bbox_arg st, 4326, 28992)] else [])"
      using assms by (auto simp: negotiate_def select_crs_def split: sum.splits)
    obtain res st1 where neg: "negotiate env dataset st = (res, st1)"
      by (cases "negotiate env dataset st")
    show "transform_calls st' = transform_calls st @
              (if ''urn:ogc:def:crs:EPSG::28992'' \<in> supported_crs
               then [(bbox_arg st, 4326, 28992)] else [])"
    proof (cases res)
      case (Inl e)
      with run sel neg have "st' = st1" by (simp add: fetch_dataset_def)
      with calls neg show ?thesis by simp
    next
      case (Inr to_epsg)
      with run sel neg have "fetch_layers env dataset (urn to_epsg)
          (case dataset_layers (name dataset) of None \<Rightarrow> [] | Some layers \<Rightarrow> layers) st1
          = Some (r, st')"
        by (simp add: fetch_dataset_def)
      from fetch_layers_frame [OF this] calls neg show ?thesis by simp
    qed
  qed
qed

lemma fetch_dataset_inv:
  assumes "fetch_dataset env sel dl dataset st = Some (r, st')"
  shows "bbox_arg st' = bbox_arg st
   \<and> (transform_calls st' = transform_calls st
      \<or> transform_calls st' = transform_calls st @ [(bbox_arg st, 4326, 28992)])"
proof (cases "name dataset \<in> set sel")
  case False
  with assms show ?thesis by (simp add: fetch_dataset_def)
next
  case True
  obtain res st1 where neg: "negotiate env dataset st = (res, st1)"
    by (cases "negotiate env dataset st")
  note frame = negotiate_frame [of env dataset st]
  show ?thesis
  proof (cases res)
    case (Inl e)
    with assms True neg have "st' = st1" by (simp add: fetch_dataset_def)
    with frame neg show ?thesis by simp
  next
    case (Inr to_epsg)
    with assms True neg have "fetch_layers env dataset (urn to_epsg)
        (case dl (name dataset) of None \<Rightarrow> [] | Some layers \<Rightarrow> layers) st1 = Some (r, st')"
      by (simp add: fetch_dataset_def)
    from fetch_layers_frame [OF this] frame neg show ?thesis by simp
  qed
qed

lemma fetch_datasets_inv:
  "fetch_datasets env sel dl datasets st = Some (r, st') \<Longrightarrow>
   \<forall>call \<in> set (transform_calls st). call = (bbox_arg st, 4326, 28992) \<Longrightarrow>
   bbox_arg st' = bbox_arg st
   \<and> (\<forall>call \<in> set (transform_calls st'). call = (bbox_arg st, 4326, 28992))"
proof (induction datasets arbitrary: st)
  case Nil
  then show ?case by simp
next
  case (Cons dataset datasets)
  from Cons.prems(1) obtain r1 st1 where
    step: "fetch_dataset env sel dl dataset st = Some (r1, st1)"
    by (auto split: option.splits)
  from fetch_dataset_inv [OF step] Cons.prems(2)
  have inv1: "bbox_arg st1 = bbox_arg st"
    "\<forall>call \<in> set (transform_calls st1). call = (bbox_arg st1, 4326, 28992)"
    by auto
  show ?case
  proof (cases r1)
    case None
    with Cons.prems(1) step have "fetch_datasets env sel dl datasets st1 = Some (r, st')"
      by simp
    from Cons.IH [OF this inv1(2)] inv1(1) show ?thesis by simp
  next
    case (Some e)
    with Cons.prems(1) step have "st' = st1" by simp
    with inv1 show ?thesis by simp
  qed
qed

text \<open>
  Claim C8. When \<^verbatim>\<open>fetch_geodata\<close> returns or raises, its parameter \<^verbatim>\<open>bbox\<close> has the
  value the caller gave, and every call of \<^verbatim>\<open>transform_bbox\<close> it made was on that value,
  from 4326 to 28992.
\<close>

theorem caller_bbox_unmodified:
  assumes "fetch_geodata env selected_datasets dataset_layers datasets bbox = Some (r, st)"
  shows "bbox_arg st = bbox
         \<and> (\<forall>(b, from_epsg, to_epsg) \<in> set (transform_calls st).
               b = bbox \<and> from_epsg = 4326 \<and> to_epsg = 28992)"
  using fetch_datasets_inv [OF assms [unfolded fetch_geodata_def]] by auto

lemma demo_crs_a:
  "get_supported_crs demo_env ''http://a/wfs'' =
     Inr {''urn:ogc:def:crs:EPSG::28992'', ''urn:ogc:def:crs:EPSG::4326''}"
  by (simp add: get_supported_crs_def supported_crs_try_def demo_env_def demo_http_def
      crs_request_def ok_def demo_parse_def demo_caps_a_def endswith_def strip_def isspace_def
      insert_commute)

lemma demo_crs_b:
  "get_supported_crs demo_env ''http://b/wfs'' = Inr {''urn:ogc:def:crs:EPSG::4326''}"
  by (simp add: get_supported_crs_def supported_crs_try_def demo_env_def demo_http_def
      crs_request_def ok_def demo_parse_def demo_caps_b_def endswith_def strip_def isspace_def)

lemma demo_crs_wms:
  "get_supported_crs demo_env ''http://example/wms'' = Inr {}"
  by (simp add: get_supported_crs_def supported_crs_try_def demo_env_def demo_http_def
      crs_request_def failed_def)

lemma demo_transform:
  "transform_bbox demo_env (4, 51, 5, 52) 4326 28992 = Inr (- 48, 55, - 46, 57)"
  by (simp add: transform_bbox_def demo_env_def box_def)

lemma demo_bbox_str:
  "bbox_str demo_env (4, 51, 5, 52) = ''4,51,5,52''"
  "bbox_str demo_env (- 48, 55, - 46, 57) = ''-48,55,-46,57''"
  by (simp_all add: bbox_str_def demo_env_def str_int_def str_nat_small str_nat_large digit_def)


lemma demo_urn:
  "urn 28992 = ''urn:ogc:def:crs:EPSG::28992''" "urn 4326 = ''urn:ogc:def:crs:EPSG::4326''"
  by (simp_all add: urn_def str_nat_samples)

lemma demo_layer_down:
  assumes "type d = ''WFS''"
  shows "fetch_layer demo_env d c ''ns:down'' st =
     Some (None, st\<lparr>requests := requests st @
        [getfeature_request demo_env (url d) ''ns:down'' c (extent st) 0]\<rparr>)"
proof -
  have "wfs_pages demo_env (url d) ''ns:down'' c (extent st) 0 [] (requests st) =
      Some (Inr [], requests st @ [getfeature_request demo_env (url d) ''ns:down'' c (extent st) 0])"
    by (rule wfs_pages_status [where r = "\<lparr>status_code = 503, content_encoding = None,
        content = ''error''\<rparr>"]) (simp_all add: demo_serves demo_pages_def failed_def)
  with assms show ?thesis by (simp add: fetch_layer_def)
qed

lemma demo_layer_paths:
  assumes "type d = ''WFS''"
  shows "fetch_layer demo_env d c ''ns:paths'' st =
     Some (None,
       st\<lparr>requests := requests st @
            [getfeature_request demo_env (url d) ''ns:paths'' c (extent st) 0],
          written := written st @ [(''ns_paths_4326.geojson'', merge_pages demo_env [demo_none])],
          results := (results st)(''ns:paths'' \<mapsto>
            WFS_result (to_json demo_env (merge_pages demo_env [demo_none]))
              ''ns_paths_4326.geojson'')\<rparr>)"
proof -
  have "wfs_pages demo_env (url d) ''ns:paths'' c (extent st) 0 [] (requests st) =
      Some (Inr ([] @ [demo_none]),
            requests st @ [getfeature_request demo_env (url d) ''ns:paths'' c (extent st) 0])"
    by (rule wfs_pages_short)
       (simp_all add: serves_def demo_serves demo_pages_def ok_def demo_decode demo_read_def
         demo_lengths count_def)
  moreover have "writable demo_env (layer_filename ''ns:paths'')"
    by (simp add: demo_env_def)
  moreover have "layer_filename ''ns:paths'' = ''ns_paths_4326.geojson''"
    by (simp add: layer_filename_def replace_def)
  ultimately show ?thesis
    using assms by (simp add: fetch_layer_def)
qed

lemma demo_negotiate_a:
  assumes "bbox_arg st = (4, 51, 5, 52)"
  shows "negotiate demo_env demo_wfs st =
     (Inr 28992,
      st\<lparr>requests := requests st @ [crs_request ''http://a/wfs''],
         transform_calls := transform_calls st @ [((4, 51, 5, 52), 4326, 28992)],
         extent := (- 48, 55, - 46, 57)\<rparr>)"
  using assms
  by (simp add: negotiate_def demo_wfs_def demo_crs_a select_crs_def demo_transform)

lemma demo_negotiate_b:
  "negotiate demo_env demo_wfs_b st =
     (Inr 4326, st\<lparr>requests := requests st @ [crs_request ''http://b/wfs'']\<rparr>)"
  by (simp add: negotiate_def demo_wfs_b_def demo_crs_b select_crs_def)

lemma demo_negotiate_wms:
  "negotiate demo_env demo_wms st =
     (Inr 4326, st\<lparr>requests := requests st @ [crs_request ''http://example/wms'']\<rparr>)"
  by (simp add: negotiate_def demo_wms_def demo_crs_wms select_crs_def)

lemma demo_run_wfs:
  "fetch_geodata demo_env [''A'', ''B''] demo_layers [demo_wfs, demo_wfs_b] (4, 51, 5, 52) =
     Some (None,
       \<lparr>bbox_arg = (4, 51, 5, 52), extent = (- 48, 55, - 46, 57),
        results = [''ns:paths'' \<mapsto>
            WFS_result (to_json demo_env (merge_pages demo_env [demo_none]))
              ''ns_paths_4326.geojson''],
        requests =
          [crs_request ''http://a/wfs'',
           getfeature_request demo_env ''http://a/wfs'' ''ns:down''
             ''urn:ogc:def:crs:EPSG::28992'' (- 48, 55, - 46, 57) 0,
           crs_request ''http://b/wfs'',
           getfeature_request demo_env ''http://b/wfs'' ''ns:paths''
             ''urn:ogc:def:crs:EPSG::4326'' (- 48, 55, - 46, 57) 0],
        transform_calls = [((4, 51, 5, 52), 4326, 28992)],
        written = [(''ns_paths_4326.geojson'', merge_pages demo_env [demo_none])]\<rparr>)"
proof -
  have a: "type demo_wfs = ''WFS''" "name demo_wfs = ''A''" "url demo_wfs = ''http://a/wfs''"
    by (simp_all add: demo_wfs_def)
  have b: "type demo_wfs_b = ''WFS''" "name demo_wfs_b = ''B''" "url demo_wfs_b = ''http://b/wfs''"
    by (simp_all add: demo_wfs_b_def)
  show ?thesis
    by (simp add: fetch_geodata_def fetch_dataset_def demo_negotiate_a demo_negotiate_b
        demo_layers_def demo_urn demo_layer_down [OF a(1)] demo_layer_paths [OF b(1)] a b)
qed


lemma demo_layer_wms:
  assumes "type d = ''WMS''"
  shows "fetch_layer demo_env d c layer st =
     Some (None, st\<lparr>results := (results st)(layer \<mapsto>
        WMS_result (getmap_url demo_env (url d) layer (extent st)))\<rparr>)"
  using assms by (simp add: fetch_layer_def)

lemma demo_getmap:
  "getmap_url demo_env ''http://example/wms'' ''water'' (4, 51, 5, 52) =
     ''http://example/wms?service=WMS&request=GetMap&layers=water&bbox=4,51,5,52&width=500&height=500&srs=EPSG:4326&format=image/png''"
  "getmap_url demo_env ''http://example/wms'' ''water'' (- 48, 55, - 46, 57) =
     ''http://example/wms?service=WMS&request=GetMap&layers=water&bbox=-48,55,-46,57&width=500&height=500&srs=EPSG:4326&format=image/png''"
  by (simp_all add: getmap_url_def demo_bbox_str)

lemma demo_run_wms:
  "fetch_geodata demo_env [''A'', ''W''] demo_layers [demo_wfs, demo_wms] (4, 51, 5, 52) =
     Some (None,
       \<lparr>bbox_arg = (4, 51, 5, 52), extent = (- 48, 55, - 46, 57),
        results = [''water'' \<mapsto> WMS_result
          ''http://example/wms?service=WMS&request=GetMap&layers=water&bbox=-48,55,-46,57&width=500&height=500&srs=EPSG:4326&format=image/png''],
        requests =
          [crs_request ''http://a/wfs'',
           getfeature_request demo_env ''http://a/wfs'' ''ns:down''
             ''urn:ogc:def:crs:EPSG::28992'' (- 48, 55, - 46, 57) 0,
           crs_request ''http://example/wms''],
        transform_calls = [((4, 51, 5, 52), 4326, 28992)],
        written = []\<rparr>)"
proof -
  have a: "type demo_wfs = ''WFS''" "name demo_wfs = ''A''" "url demo_wfs = ''http://a/wfs''"
    by (simp_all add: demo_wfs_def)
  have w: "type demo_wms = ''WMS''" "name demo_wms = ''W''" "url demo_wms = ''http://example/wms''"
    by (simp_all add: demo_wms_def)
  show ?thesis
    by (simp add: fetch_geodata_def fetch_dataset_def demo_negotiate_a demo_negotiate_wms
        demo_layers_def demo_urn demo_layer_down [OF a(1)] demo_layer_wms [OF w(1)] a w
        demo_getmap)
qed

lemma demo_run_wms_alone:
  "fetch_geodata demo_env [''W''] demo_layers [demo_wfs, demo_wms] (4, 51, 5, 52) =
     Some (None,
       \<lparr>bbox_arg = (4, 51, 5, 52), extent = (4, 51, 5, 52),
        results = [''water'' \<mapsto> WMS_result
          ''http://example/wms?service=WMS&request=GetMap&layers=water&bbox=4,51,5,52&width=500&height=500&srs=EPSG:4326&format=image/png''],
        requests = [crs_request ''http://example/wms''],
        transform_calls = [],
        written = []\<rparr>)"
proof -
  have a: "name demo_wfs = ''A''"
    by (simp add: demo_wfs_def)
  have w: "type demo_wms = ''WMS''" "name demo_wms = ''W''" "url demo_wms = ''http://example/wms''"
    by (simp_all add: demo_wms_def)
  show ?thesis
    by (simp add: fetch_geodata_def fetch_dataset_def demo_negotiate_wms
        demo_layers_def demo_urn demo_layer_wms [OF w(1)] a w demo_getmap)
qed

text \<open>
  Claim C1 does not hold of the code. Two WFS datasets are selected: the first supports
  EPSG:28992, the second only EPSG:4326. The variables \<^verbatim>\<open>minx, miny, maxx, maxy\<close> keep
  the transformed extent of the first dataset, so the GetFeature request of the second
  carries the projected coordinates next to the URN of EPSG:4326.
\<close>

theorem stale_extent_in_later_dataset:
  "map_option
     (\<lambda>(r, st). (r, map (\<lambda>q. map_of (req_params q) ''BBOX'') (requests st), transform_calls st))
     (fetch_geodata demo_env [''A'', ''B''] demo_layers [demo_wfs, demo_wfs_b] (4, 51, 5, 52)) =
   Some (None,
     [None, Some ''-48,55,-46,57,urn:ogc:def:crs:EPSG::28992'',
      None, Some ''-48,55,-46,57,urn:ogc:def:crs:EPSG::4326''],
     [((4, 51, 5, 52), 4326, 28992)])"
  by (simp add: demo_run_wfs crs_request_def getfeature_request_def demo_bbox_str)

text \<open>
  Claim C2 does not hold of the code. A WMS dataset that comes after a WFS dataset
  supporting EPSG:28992 gets a GetMap URL with the projected extent of that dataset next to
  \<^verbatim>\<open>srs=EPSG:4326\<close>. Selected alone, the same WMS dataset gets the URL of the caller's
  bbox.
\<close>

theorem stale_extent_in_getmap_url:
  "map_option (\<lambda>(r, st). (r, results st ''water'', transform_calls st))
     (fetch_geodata demo_env [''A'', ''W''] demo_layers [demo_wfs, demo_wms] (4, 51, 5, 52)) =
   Some (None,
     Some (WMS_result
       ''http://example/wms?service=WMS&request=GetMap&layers=water&bbox=-48,55,-46,57&width=500&height=500&srs=EPSG:4326&format=image/png''),
     [((4, 51, 5, 52), 4326, 28992)])
   \<and> map_option (\<lambda>(r, st). (r, results st ''water'', transform_calls st))
     (fetch_geodata demo_env [''W''] demo_layers [demo_wfs, demo_wms] (4, 51, 5, 52)) =
   Some (None,
     Some (WMS_result
       ''http://example/wms?service=WMS&request=GetMap&layers=water&bbox=4,51,5,52&width=500&height=500&srs=EPSG:4326&format=image/png''),
     [])"
  by (simp add: demo_run_wms demo_run_wms_alone)

theorem crs_selection_policy_witness:
  "select_crs {''urn:ogc:def:crs:EPSG::28992'', ''urn:ogc:def:crs:EPSG::4326''} = 28992
   \<and> transform_calls (snd (negotiate demo_env demo_wfs demo_state)) =
       [((4, 51, 5, 52), 4326, 28992)]
   \<and> fst (negotiate demo_env demo_wfs demo_state) = Inr 28992
   \<and> extent (snd (negotiate demo_env demo_wfs demo_state)) = (- 48, 55, - 46, 57)
   \<and> select_crs {''urn:ogc:def:crs:EPSG::4326''} = 4326
   \<and> negotiate demo_env demo_wfs_b demo_state =
       (Inr 4326, demo_state\<lparr>requests := [crs_request ''http://b/wfs'']\<rparr>)"
proof -
  have a: "get_supported_crs demo_env (url demo_wfs) =
      Inr {''urn:ogc:def:crs:EPSG::28992'', ''urn:ogc:def:crs:EPSG::4326''}"
    by (simp add: demo_wfs_def demo_crs_a)
  have b: "get_supported_crs demo_env (url demo_wfs_b) = Inr {''urn:ogc:def:crs:EPSG::4326''}"
    by (simp add: demo_wfs_b_def demo_crs_b)
  have box: "bbox_arg demo_state = (4, 51, 5, 52)" "transform_calls demo_state = []"
    "requests demo_state = []"
    by (simp_all add: demo_state_def)
  from crs_selection_policy [OF a, of demo_state, THEN conjunct1]
  have first: "select_crs {''urn:ogc:def:crs:EPSG::28992'', ''urn:ogc:def:crs:EPSG::4326''} = 28992
   \<and> transform_calls (snd (negotiate demo_env demo_wfs demo_state)) =
       [((4, 51, 5, 52), 4326, 28992)]
   \<and> fst (negotiate demo_env demo_wfs demo_state) = Inr 28992
   \<and> extent (snd (negotiate demo_env demo_wfs demo_state)) = (- 48, 55, - 46, 57)"
    by (simp add: box demo_transform)
  from crs_selection_policy [OF b, of demo_state, THEN conjunct2, THEN conjunct1]
  have second: "select_crs {''urn:ogc:def:crs:EPSG::4326''} = 4326
   \<and> negotiate demo_env demo_wfs_b demo_state =
       (Inr 4326, demo_state\<lparr>requests := [crs_request ''http://b/wfs'']\<rparr>)"
    by (simp add: box demo_wfs_b_def)
  from first second show ?thesis by simp
qed

theorem caller_bbox_unmodified_witness:
  "(case fetch_geodata demo_env [''A'', ''B''] demo_layers [demo_wfs, demo_wfs_b]
          (4, 51, 5, 52) of
      None \<Rightarrow> False
    | Some (r, st) \<Rightarrow>
        bbox_arg st = (4, 51, 5, 52) \<and> extent st = (- 48, 55, - 46, 57)
        \<and> transform_calls st = [((4, 51, 5, 52), 4326, 28992)])"
  using caller_bbox_unmodified [OF demo_run_wfs]
  by (simp add: demo_run_wfs)

end
